theory Spec2Isabelle
  imports Complex_Main
begin

section \<open>Conventions of the embedding\<close>

text \<open>
  The Python sources of the signal-and-execution engine are embedded as HOL functions.

  \<^item> Python \<open>float\<close> arithmetic has two readings here. In the idealised reading a
    float is a \<open>real\<close> and every formula is the one the source writes, evaluated without
    binary rounding; it serves the properties that do not depend on rounding (bounds,
    guards, dispatch, what is written where). In the binary64 reading a float is the
    real number an IEEE double denotes, and every operation rounds its exact result to
    the nearest double, ties to even (\<open>rd\<close>); it serves the numbers the sizing and the
    order price produce, and its functions carry the suffix \<open>_f64\<close>. Infinities, NaN
    and overflow of an arithmetic result are outside both readings.
  \<^item> The places where the source rounds on purpose (\<open>round(x, 2)\<close>, \<open>round(x, 4)\<close>)
    and where it truncates (\<open>int(x)\<close>) are modelled explicitly.
  \<^item> A Python exception is a value \<open>Inl e\<close> of a sum type; a normal return is \<open>Inr v\<close>.
    Division by a variable goes through \<open>fdiv\<close>, which raises \<open>ZeroDivisionError\<close>
    as Python does, so that a guard in the source is a branch of the model.
  \<^item> A dataclass is a record, an \<open>Enum\<close> a datatype, \<open>Optional[T]\<close> an option.
  \<^item> The wall clock, the network, the journal file and the language model are
    arguments or explicit state.
\<close>

section \<open>Python primitives\<close>

datatype py_error =
    ZeroDivisionError
  | IndexError
  | KeyError
  | TypeError
  | ValueError
  | AttributeError
  | JSONDecodeError
  | TransportError
  | HTTPStatusError int
  | KalshiRateLimitError
  | KalshiAPIError int
  | OverflowError

text \<open>\<open>a / b\<close> on floats: raises when the divisor is zero.\<close>

definition fdiv :: "real \<Rightarrow> real \<Rightarrow> py_error + real" where
  "fdiv a b = (if b = 0 then Inl ZeroDivisionError else Inr (a / b))"

text \<open>\<open>int(x)\<close> on a float truncates toward zero.\<close>

definition py_int :: "real \<Rightarrow> int" where
  "py_int x = (if 0 \<le> x then \<lfloor>x\<rfloor> else \<lceil>x\<rceil>)"

text \<open>\<open>round(x)\<close> rounds to the nearest integer, a tie going to the even neighbour.\<close>

definition py_round :: "real \<Rightarrow> int" where
  "py_round x =
     (let f = \<lfloor>x\<rfloor>; d = x - of_int f
      in if d < 1 / 2 then f
         else if 1 / 2 < d then f + 1
         else if even f then f else f + 1)"

text \<open>\<open>round(x, n)\<close>: the same rounding at the \<open>n\<close>-th decimal place.\<close>

definition round_ndigits :: "real \<Rightarrow> nat \<Rightarrow> real" where
  "round_ndigits x n = of_int (py_round (x * 10 ^ n)) / 10 ^ n"

subsection \<open>Binary64 arithmetic\<close>

text \<open>
  \<open>pow2 e\<close> is 2 to the power \<open>e\<close>. \<open>binade fuel x 0\<close> is, for a positive \<open>x\<close>, the
  exponent \<open>e\<close> with \<open>2^52 \<le> x / 2^e < 2^53\<close>: the weight of the last of the 53 bits of
  \<open>x\<close>. A fuel of 2200 covers every double, from \<open>2^-1074\<close> to \<open>2^1024\<close>.
\<close>

definition pow2 :: "int \<Rightarrow> real" where
  "pow2 e = (if 0 \<le> e then 2 ^ nat e else 1 / 2 ^ nat (- e))"

fun binade :: "nat \<Rightarrow> real \<Rightarrow> int \<Rightarrow> int" where
  "binade 0 x e = e"
| "binade (Suc fuel) x e =
     (if 2 ^ 53 \<le> x then binade fuel (x / 2) (e + 1)
      else if x < 2 ^ 52 then binade fuel (x * 2) (e - 1)
      else e)"

text \<open>
  \<open>rd x\<close> is the double nearest to \<open>x\<close>, a tie going to the even significand: \<open>x\<close> is
  rounded to a multiple of the weight of its last bit, which is never below \<open>2^-1074\<close>
  (the subnormal range).
\<close>

definition round_at :: "int \<Rightarrow> real \<Rightarrow> real" where
  "round_at e x = of_int (py_round (x / pow2 e)) * pow2 e"

definition rd :: "real \<Rightarrow> real" where
  "rd x = (if x = 0 then 0 else round_at (max (- 1074) (binade 2200 \<bar>x\<bar> 0)) x)"

text \<open>
  The operations on doubles: the exact result, rounded. Division raises on a zero
  divisor. \<open>round(x, n)\<close> on a double rounds its exact value at the \<open>n\<close>-th decimal
  place and returns the double nearest to that decimal.
\<close>

definition fadd64 :: "real \<Rightarrow> real \<Rightarrow> real" where
  "fadd64 a b = rd (a + b)"

definition fsub64 :: "real \<Rightarrow> real \<Rightarrow> real" where
  "fsub64 a b = rd (a - b)"

definition fmul64 :: "real \<Rightarrow> real \<Rightarrow> real" where
  "fmul64 a b = rd (a * b)"

definition fdiv64 :: "real \<Rightarrow> real \<Rightarrow> py_error + real" where
  "fdiv64 a b = (if b = 0 then Inl ZeroDivisionError else Inr (rd (a / b)))"

definition round_f64 :: "real \<Rightarrow> nat \<Rightarrow> real" where
  "round_f64 x n = rd (round_ndigits x n)"

subsection \<open>Decoded JSON\<close>

text \<open>A value decoded from JSON, as \<open>json.loads\<close> and \<open>resp.json()\<close> return it.\<close>

datatype json =
    JNull
  | JBool bool
  | JInt int
  | JFloat real
  | JStr string
  | JArr "json list"
  | JObj "(string \<times> json) list"

text \<open>\<open>d.get(k, default)\<close> on a dictionary.\<close>

definition dict_get :: "(string \<times> json) list \<Rightarrow> string \<Rightarrow> json \<Rightarrow> json" where
  "dict_get d k dflt = (case map_of d k of Some v \<Rightarrow> v | None \<Rightarrow> dflt)"

text \<open>Truth value of an object, and \<open>a or b\<close>.\<close>

fun truthy :: "json \<Rightarrow> bool" where
  "truthy JNull = False"
| "truthy (JBool b) = b"
| "truthy (JInt n) = (n \<noteq> 0)"
| "truthy (JFloat r) = (r \<noteq> 0)"
| "truthy (JStr s) = (s \<noteq> [])"
| "truthy (JArr xs) = (xs \<noteq> [])"
| "truthy (JObj kv) = (kv \<noteq> [])"

definition py_or :: "json \<Rightarrow> json \<Rightarrow> json" where
  "py_or a b = (if truthy a then a else b)"

text \<open>
  \<open>float(x)\<close>. Reading a string as a number is the argument \<open>float_of_str\<close>
  (\<open>None\<close> where Python raises \<open>ValueError\<close>). An integer becomes the nearest
  double, and one that rounds to \<open>2^1024\<close> or beyond raises \<open>OverflowError\<close>.
\<close>

fun py_float :: "(string \<Rightarrow> real option) \<Rightarrow> json \<Rightarrow> py_error + real" where
  "py_float float_of_str JNull = Inl TypeError"
| "py_float float_of_str (JBool b) = Inr (if b then 1 else 0)"
| "py_float float_of_str (JInt n) =
     (if 2 ^ 1024 - 2 ^ 970 \<le> \<bar>n\<bar> then Inl OverflowError else Inr (rd (of_int n)))"
| "py_float float_of_str (JFloat r) = Inr r"
| "py_float float_of_str (JStr s) =
     (case float_of_str s of None \<Rightarrow> Inl ValueError | Some r \<Rightarrow> Inr r)"
| "py_float float_of_str (JArr xs) = Inl TypeError"
| "py_float float_of_str (JObj kv) = Inl TypeError"

text \<open>\<open>x / 100\<close> on a decoded value: numbers divide, anything else is a \<open>TypeError\<close>.\<close>

fun div_100 :: "json \<Rightarrow> py_error + real" where
  "div_100 (JBool b) = Inr ((if b then 1 else 0) / 100)"
| "div_100 (JInt n) = Inr (of_int n / 100)"
| "div_100 (JFloat r) = Inr (r / 100)"
| "div_100 JNull = Inl TypeError"
| "div_100 (JStr s) = Inl TypeError"
| "div_100 (JArr xs) = Inl TypeError"
| "div_100 (JObj kv) = Inl TypeError"

text \<open>\<open>x[0]\<close> on a decoded value.\<close>

fun subscript_0 :: "json \<Rightarrow> py_error + json" where
  "subscript_0 (JArr []) = Inl IndexError"
| "subscript_0 (JArr (x # xs)) = Inr x"
| "subscript_0 (JStr []) = Inl IndexError"
| "subscript_0 (JStr (c # cs)) = Inr (JStr [c])"
| "subscript_0 (JObj kv) = Inl KeyError"
| "subscript_0 JNull = Inl TypeError"
| "subscript_0 (JBool b) = Inl TypeError"
| "subscript_0 (JInt n) = Inl TypeError"
| "subscript_0 (JFloat r) = Inl TypeError"

section \<open>Domain model (\<open>kalshi_alpha_suite/models.py\<close>, \<open>config.py\<close>)\<close>

datatype side = YES | NO

datatype signal_source = ORDERBOOK | NLP | ARBITRAGE

text \<open>
  The rationale of a signal is an f-string; it is kept as its template together with the
  values substituted into it.
\<close>

datatype rationale =
    Plain string
  | LiquidityVoid int int int int
  | FeedNote string json
  | CrossPlatformArb real real real

record signal =
  source :: signal_source
  ticker :: string
  side :: side
  implied_prob :: real
  estimated_fair_prob :: real
  edge :: real
  confidence :: real
  rationale :: rationale
  timestamp :: string

record orderbook_snapshot =
  snap_ticker :: string
  best_yes_bid :: int
  best_no_bid :: int
  synthetic_yes_ask :: int
  spread_cents :: int
  snap_timestamp :: string

record kelly_result =
  optimal_fraction :: real
  position_size_usd :: real
  net_ev :: real
  should_trade :: bool

record suite_config =
  paper_trading :: bool
  kalshi_fee_rate :: real
  spread_threshold_cents :: int
  kelly_edge_min :: real
  nlp_prob_shift_min :: real
  max_position_usd :: real
  cfg_kelly_fraction :: real

section \<open>Kelly sizing (\<open>agents/risk_execution_agent.py\<close>, \<open>agents/arbitrage_agent.py\<close>)\<close>

text \<open>
  \<open>RiskExecutionAgent.size\<close> is \<open>size_signal\<close> here (\<open>size\<close> is a constant of HOL), and the
  configuration field \<open>kelly_fraction\<close> is \<open>cfg_kelly_fraction\<close>, the plain name being the
  module-level function.
\<close>

definition kelly_fraction :: "real \<Rightarrow> real \<Rightarrow> py_error + real" where
  "kelly_fraction p b = (if b \<le> 0 then Inr 0 else fdiv (p * (b + 1) - 1) b)"

definition kelly_criterion :: "real \<Rightarrow> real \<Rightarrow> py_error + real" where
  "kelly_criterion p b = (if b \<le> 0 then Inr 0 else fdiv (p * (b + 1) - 1) b)"

definition net_payout_after_fees :: "real \<Rightarrow> real \<Rightarrow> real" where
  "net_payout_after_fees gross_b fee_rate = gross_b * (1 - fee_rate)"

definition size_p :: "signal \<Rightarrow> real" where
  "size_p s = (if side s = YES then estimated_fair_prob s else 1 - estimated_fair_prob s)"

definition size_market_price :: "signal \<Rightarrow> real" where
  "size_market_price s = (if side s = YES then implied_prob s else 1 - implied_prob s)"

definition size_signal :: "suite_config \<Rightarrow> signal \<Rightarrow> real \<Rightarrow> py_error + kelly_result" where
  "size_signal cfg s bankroll_usd =
     (let p = size_p s; market_price = size_market_price s
      in if market_price \<le> 0 \<or> 1 \<le> market_price
         then Inr \<lparr>optimal_fraction = 0, position_size_usd = 0, net_ev = 0,
                   should_trade = False\<rparr>
         else
           (case fdiv 1 market_price of
              Inl e \<Rightarrow> Inl e
            | Inr q \<Rightarrow>
               (let gross_b = q - 1;
                    b = net_payout_after_fees gross_b (kalshi_fee_rate cfg)
                in case kelly_fraction p b of
                     Inl e \<Rightarrow> Inl e
                   | Inr f_star \<Rightarrow>
                      (let f_used = max 0 (f_star * cfg_kelly_fraction cfg);
                           position_usd = min (f_used * bankroll_usd) (max_position_usd cfg);
                           ev = p * b - (1 - p);
                           go = (kelly_edge_min cfg < f_star \<and> 0 < ev \<and> 0 < position_usd)
                       in Inr \<lparr>optimal_fraction = f_star,
                                position_size_usd = round_ndigits position_usd 2,
                                net_ev = round_ndigits ev 4,
                                should_trade = go\<rparr>))))"

text \<open>
  The same three functions in the binary64 reading: every arithmetic operation of the
  source is one rounded operation, in the order Python evaluates it.
\<close>

definition kelly_fraction_f64 :: "real \<Rightarrow> real \<Rightarrow> py_error + real" where
  "kelly_fraction_f64 p b =
     (if b \<le> 0 then Inr 0 else fdiv64 (fsub64 (fmul64 p (fadd64 b 1)) 1) b)"

definition net_payout_after_fees_f64 :: "real \<Rightarrow> real \<Rightarrow> real" where
  "net_payout_after_fees_f64 gross_b fee_rate = fmul64 gross_b (fsub64 1 fee_rate)"

definition size_p_f64 :: "signal \<Rightarrow> real" where
  "size_p_f64 s =
     (if side s = YES then estimated_fair_prob s else fsub64 1 (estimated_fair_prob s))"

definition size_market_price_f64 :: "signal \<Rightarrow> real" where
  "size_market_price_f64 s =
     (if side s = YES then implied_prob s else fsub64 1 (implied_prob s))"

definition size_f64 :: "suite_config \<Rightarrow> signal \<Rightarrow> real \<Rightarrow> py_error + kelly_result" where
  "size_f64 cfg s bankroll_usd =
     (let p = size_p_f64 s; market_price = size_market_price_f64 s
      in if market_price \<le> 0 \<or> 1 \<le> market_price
         then Inr \<lparr>optimal_fraction = 0, position_size_usd = 0, net_ev = 0,
                   should_trade = False\<rparr>
         else
           (case fdiv64 1 market_price of
              Inl e \<Rightarrow> Inl e
            | Inr q \<Rightarrow>
               (let gross_b = fsub64 q 1;
                    b = net_payout_after_fees_f64 gross_b (kalshi_fee_rate cfg)
                in case kelly_fraction_f64 p b of
                     Inl e \<Rightarrow> Inl e
                   | Inr f_star \<Rightarrow>
                      (let f_used = max 0 (fmul64 f_star (cfg_kelly_fraction cfg));
                           position_usd = min (fmul64 f_used bankroll_usd)
                                              (max_position_usd cfg);
                           ev = fsub64 (fmul64 p b) (fsub64 1 p);
                           go = (kelly_edge_min cfg < f_star \<and> 0 < ev \<and> 0 < position_usd)
                       in Inr \<lparr>optimal_fraction = f_star,
                                position_size_usd = round_f64 position_usd 2,
                                net_ev = round_f64 ev 4,
                                should_trade = go\<rparr>))))"

section \<open>Exchange gateways (\<open>kalshi_client/client.py\<close>, \<open>kalshi_alpha_suite/kalshi_client.py\<close>)\<close>

text \<open>
  What a client reads of an HTTP reply: the status, the \<open>Retry-After\<close> header if
  there is one, and the decoded body (\<open>None\<close> where \<open>resp.json()\<close> raises).
\<close>

record response =
  status_code :: int
  retry_after :: "string option"
  json_payload :: "json option"

text \<open>
  The network is a function from the number of requests already sent to the outcome
  of the next one: an exception of the transport, or a reply. The state of a client
  counts the requests sent and lists the arguments of the calls of \<open>time.sleep\<close>.
\<close>

record net =
  requests_made :: nat
  sleeps :: "int list"

text \<open>
  \<open>int(retry_after) if retry_after else 2\<close>; \<open>parse_int\<close> is \<open>int\<close> on a string,
  \<open>None\<close> where it raises \<open>ValueError\<close>.
\<close>

definition wait_seconds :: "(string \<Rightarrow> int option) \<Rightarrow> response \<Rightarrow> py_error + int" where
  "wait_seconds parse_int resp =
     (case retry_after resp of
        None \<Rightarrow> Inr 2
      | Some h \<Rightarrow>
         (if h = [] then Inr 2
          else case parse_int h of None \<Rightarrow> Inl ValueError | Some n \<Rightarrow> Inr n))"

text \<open>What \<open>_request\<close> of the synchronous client does with a reply it does not retry.\<close>

definition sdk_finish :: "response \<Rightarrow> py_error + json" where
  "sdk_finish resp =
     (if status_code resp = 429 then Inl KalshiRateLimitError
      else if 400 \<le> status_code resp then
        (case (case json_payload resp of Some j \<Rightarrow> j | None \<Rightarrow> JObj []) of
           JObj d \<Rightarrow> Inl (KalshiAPIError (status_code resp))
         | _ \<Rightarrow> Inl AttributeError)
      else if status_code resp = 204 then Inr (JObj [])
      else case json_payload resp of None \<Rightarrow> Inl JSONDecodeError | Some j \<Rightarrow> Inr j)"

text \<open>
  \<open>KalshiClient._request\<close> of \<open>kalshi_client/client.py\<close>, recursive in \<open>_retries\<close>.
  \<open>time.sleep\<close> raises \<open>ValueError\<close> on a negative argument.
\<close>

function sdk_request ::
  "(string \<Rightarrow> int option) \<Rightarrow> (nat \<Rightarrow> py_error + response) \<Rightarrow> int \<Rightarrow> net \<Rightarrow>
   (py_error + json) \<times> net" where
  "sdk_request parse_int network retries st =
     (let st1 = st\<lparr>requests_made := Suc (requests_made st)\<rparr>
      in case network (requests_made st) of
           Inl e \<Rightarrow> (Inl e, st1)
         | Inr resp \<Rightarrow>
            (if status_code resp = 429 \<and> 0 < retries then
               (case wait_seconds parse_int resp of
                  Inl e \<Rightarrow> (Inl e, st1)
                | Inr wait \<Rightarrow>
                   (if wait < 0 then (Inl ValueError, st1)
                    else sdk_request parse_int network (retries - 1)
                           (st1\<lparr>sleeps := sleeps st1 @ [wait]\<rparr>)))
             else (sdk_finish resp, st1)))"
  by pat_completeness auto
termination
  by (relation "measure (\<lambda>(parse_int, network, retries, st). nat retries)") auto

declare sdk_request.simps [simp del]

text \<open>A call that leaves \<open>_retries\<close> at its default.\<close>

definition sdk_request_default ::
  "(string \<Rightarrow> int option) \<Rightarrow> (nat \<Rightarrow> py_error + response) \<Rightarrow> net \<Rightarrow>
   (py_error + json) \<times> net" where
  "sdk_request_default parse_int network st = sdk_request parse_int network 3 st"

text \<open>
  \<open>KalshiClient._request\<close> of \<open>kalshi_alpha_suite/kalshi_client.py\<close>: sign, send once,
  \<open>raise_for_status\<close>, decode. \<open>auth\<close> is the outcome of \<open>_ensure_auth\<close>.
  \<open>raise_for_status\<close> raises for every status outside 200 to 299.
\<close>

definition suite_request ::
  "py_error option \<Rightarrow> (nat \<Rightarrow> py_error + response) \<Rightarrow> net \<Rightarrow> (py_error + json) \<times> net" where
  "suite_request auth network st =
     (case auth of
        Some e \<Rightarrow> (Inl e, st)
      | None \<Rightarrow>
         (let st1 = st\<lparr>requests_made := Suc (requests_made st)\<rparr>
          in case network (requests_made st) of
               Inl e \<Rightarrow> (Inl e, st1)
             | Inr resp \<Rightarrow>
                (if status_code resp < 200 \<or> 299 < status_code resp
                 then (Inl (HTTPStatusError (status_code resp)), st1)
                 else case json_payload resp of
                        None \<Rightarrow> (Inl JSONDecodeError, st1)
                      | Some j \<Rightarrow> (Inr j, st1))))"

section \<open>Orderbook scanner (\<open>agents/orderbook_agent.py\<close>)\<close>

text \<open>
  The reply of \<open>GET /markets/{ticker}/orderbook\<close>: a dictionary whose \<open>yes\<close> and \<open>no\<close>
  entries are lists of \<open>[price_cents, quantity]\<close> lists, best first, either at the top
  level or under the key \<open>orderbook\<close>. An entry that is absent or \<open>null\<close> is \<open>None\<close>.
\<close>

record book_sides =
  yes_side :: "int list list option"
  no_side :: "int list list option"

record raw_orderbook =
  under_orderbook :: "book_sides option"
  top_level :: book_sides

text \<open>\<open>bids[0][0] if bids else 0\<close>; an empty level raises.\<close>

fun best_bid :: "int list list \<Rightarrow> py_error + int" where
  "best_bid [] = Inr 0"
| "best_bid ([] # rest) = Inl IndexError"
| "best_bid ((price # qty) # rest) = Inr price"

definition parse_orderbook ::
  "string \<Rightarrow> raw_orderbook \<Rightarrow> string \<Rightarrow> py_error + orderbook_snapshot option" where
  "parse_orderbook tk raw now =
     (let ob = (case under_orderbook raw of Some b \<Rightarrow> b | None \<Rightarrow> top_level raw);
          yes_bids = (case yes_side ob of Some l \<Rightarrow> l | None \<Rightarrow> []);
          no_bids = (case no_side ob of Some l \<Rightarrow> l | None \<Rightarrow> [])
      in if yes_bids = [] \<and> no_bids = [] then Inr None
         else
           (case best_bid yes_bids of
              Inl e \<Rightarrow> Inl e
            | Inr byb \<Rightarrow>
               (case best_bid no_bids of
                  Inl e \<Rightarrow> Inl e
                | Inr bnb \<Rightarrow>
                   (let sya = (if 0 < bnb then 100 - bnb else 100);
                        spread = sya - byb
                    in Inr (Some \<lparr>snap_ticker = tk, best_yes_bid = byb,
                                   best_no_bid = bnb, synthetic_yes_ask = sya,
                                   spread_cents = spread, snap_timestamp = now\<rparr>)))))"

text \<open>
  \<open>scan_market\<close>, given how the orderbook request ended. A failed request is caught;
  exceptions of the parser are not.
\<close>

definition scan_market ::
  "suite_config \<Rightarrow> string \<Rightarrow> py_error + raw_orderbook \<Rightarrow> string \<Rightarrow> py_error + signal option" where
  "scan_market cfg tk fetched now =
     (case fetched of
        Inl e \<Rightarrow> Inr None
      | Inr raw \<Rightarrow>
         (case parse_orderbook tk raw now of
            Inl e \<Rightarrow> Inl e
          | Inr None \<Rightarrow> Inr None
          | Inr (Some snap) \<Rightarrow>
             (if spread_cents snap \<le> spread_threshold_cents cfg then Inr None
              else
                (let midpoint = of_int (best_yes_bid snap + synthetic_yes_ask snap) / 2 / 100;
                     implied = (if best_yes_bid snap \<noteq> 0
                                then of_int (best_yes_bid snap) / 100 else 1 / 2)
                 in Inr (Some \<lparr>source = ORDERBOOK, ticker = tk, side = YES,
                                implied_prob = implied,
                                estimated_fair_prob = midpoint,
                                edge = midpoint - implied,
                                confidence = min (of_int (spread_cents snap) / 10) 1,
                                rationale = LiquidityVoid (spread_cents snap) (best_yes_bid snap)
                                              (synthetic_yes_ask snap) (best_yes_bid snap + 1),
                                timestamp = now\<rparr>)))))"

section \<open>News analyzer (\<open>agents/nlp_agent.py\<close>)\<close>

record nlp_signal_raw =
  ticker_keyword :: json
  raw_side :: json
  prob_shift :: real
  raw_confidence :: real
  raw_rationale :: json

datatype log_event =
    OpenAI_call_failed
  | GPT_returned_non_JSON string
  | Skipping_malformed_item json

text \<open>
  The construction of one \<open>NLPSignalRaw\<close> from an element of the parsed reply; the
  arguments are evaluated in the order written.
\<close>

definition raw_of_item :: "(string \<Rightarrow> real option) \<Rightarrow> json \<Rightarrow> py_error + nlp_signal_raw" where
  "raw_of_item float_of_str item =
     (case item of
        JObj d \<Rightarrow>
          (case map_of d ''ticker_keyword'' of
             None \<Rightarrow> Inl KeyError
           | Some kw \<Rightarrow>
              (case map_of d ''side'' of
                 None \<Rightarrow> Inl KeyError
               | Some sd \<Rightarrow>
                  (case map_of d ''prob_shift'' of
                     None \<Rightarrow> Inl KeyError
                   | Some ps \<Rightarrow>
                      (case py_float float_of_str ps of
                         Inl e \<Rightarrow> Inl e
                       | Inr shift \<Rightarrow>
                          (case map_of d ''confidence'' of
                             None \<Rightarrow> Inl KeyError
                           | Some cf \<Rightarrow>
                              (case py_float float_of_str cf of
                                 Inl e \<Rightarrow> Inl e
                               | Inr conf \<Rightarrow>
                                  Inr \<lparr>ticker_keyword = kw, raw_side = sd,
                                       prob_shift = shift, raw_confidence = conf,
                                       raw_rationale = dict_get d ''rationale'' (JStr [])\<rparr>))))))
      | _ \<Rightarrow> Inl TypeError)"

text \<open>
  The loop over the parsed items. The handler of the loop catches \<open>KeyError\<close>,
  \<open>TypeError\<close> and \<open>ValueError\<close>: such an item is logged and skipped. Any other
  exception leaves the loop and the function.
\<close>

definition caught_per_item :: "py_error \<Rightarrow> bool" where
  "caught_per_item e = (e = KeyError \<or> e = TypeError \<or> e = ValueError)"

fun collect_items ::
  "(string \<Rightarrow> real option) \<Rightarrow> json list \<Rightarrow> py_error + nlp_signal_raw list \<times> log_event list" where
  "collect_items float_of_str [] = Inr ([], [])"
| "collect_items float_of_str (item # items) =
     (case raw_of_item float_of_str item of
        Inr r \<Rightarrow>
          (case collect_items float_of_str items of
             Inl e \<Rightarrow> Inl e
           | Inr (raws, logs) \<Rightarrow> Inr (r # raws, logs))
      | Inl e \<Rightarrow>
          (if caught_per_item e then
             (case collect_items float_of_str items of
                Inl e' \<Rightarrow> Inl e'
              | Inr (raws, logs) \<Rightarrow> Inr (raws, Skipping_malformed_item item # logs))
           else Inl e))"

text \<open>
  \<open>analyze_headline\<close>. \<open>llm\<close> is the chat-completion call: it raises, or returns the
  \<open>content\<close> of each choice. \<open>loads\<close> is \<open>json.loads\<close>, \<open>None\<close> where it raises
  \<open>JSONDecodeError\<close>. The result is the list of raw signals and what was logged.
\<close>

definition analyze_headline ::
  "(string \<Rightarrow> py_error + string option list) \<Rightarrow> (string \<Rightarrow> json option) \<Rightarrow>
   (string \<Rightarrow> real option) \<Rightarrow> string \<Rightarrow> py_error + nlp_signal_raw list \<times> log_event list" where
  "analyze_headline llm loads float_of_str headline =
     (case llm headline of
        Inl e \<Rightarrow> Inr ([], [OpenAI_call_failed])
      | Inr [] \<Rightarrow> Inl IndexError
      | Inr (content # choices) \<Rightarrow>
         (let raw_text = (case content of
                            None \<Rightarrow> ''[]''
                          | Some t \<Rightarrow> if t = [] then ''[]'' else t)
          in case loads raw_text of
               None \<Rightarrow> Inr ([], [GPT_returned_non_JSON (take 200 raw_text)])
             | Some parsed \<Rightarrow>
                (let items = (case parsed of JArr xs \<Rightarrow> xs | _ \<Rightarrow> [parsed])
                 in collect_items float_of_str items)))"

text \<open>
  The signals of one raw item in \<open>run\<close>: the threshold, the resolved tickers
  (\<open>resolve\<close> is \<open>resolve_tickers\<close>, which catches every exception), one signal each.
\<close>

definition signals_of_raw ::
  "suite_config \<Rightarrow> (json \<Rightarrow> string list) \<Rightarrow> string \<Rightarrow> string \<Rightarrow> nlp_signal_raw \<Rightarrow> signal list" where
  "signals_of_raw cfg resolve now feed_name raw =
     (if \<bar>prob_shift raw\<bar> < nlp_prob_shift_min cfg then []
      else
        (let tickers = resolve (ticker_keyword raw)
         in if tickers = [] then []
            else
              (let sd = (if 0 < prob_shift raw then YES else NO)
               in map (\<lambda>tk. \<lparr>source = NLP, ticker = tk, side = sd,
                               implied_prob = 1 / 2,
                               estimated_fair_prob = 1 / 2 + prob_shift raw,
                               edge = \<bar>prob_shift raw\<bar>,
                               confidence = raw_confidence raw,
                               rationale = FeedNote feed_name (raw_rationale raw),
                               timestamp = now\<rparr>) tickers)))"

text \<open>\<open>run\<close> over the fetched feeds, as name and text pairs.\<close>

fun run_feeds ::
  "suite_config \<Rightarrow> (string \<Rightarrow> py_error + string option list) \<Rightarrow> (string \<Rightarrow> json option) \<Rightarrow>
   (string \<Rightarrow> real option) \<Rightarrow> (json \<Rightarrow> string list) \<Rightarrow> string \<Rightarrow>
   (string \<times> string) list \<Rightarrow> py_error + signal list" where
  "run_feeds cfg llm loads float_of_str resolve now [] = Inr []"
| "run_feeds cfg llm loads float_of_str resolve now ((feed_name, text) # feeds) =
     (let headline = ''['' @ feed_name @ ''] '' @ take 500 text
      in case analyze_headline llm loads float_of_str headline of
           Inl e \<Rightarrow> Inl e
         | Inr (raw_signals, logs) \<Rightarrow>
            (case run_feeds cfg llm loads float_of_str resolve now feeds of
               Inl e \<Rightarrow> Inl e
             | Inr later \<Rightarrow>
                Inr (concat (map (signals_of_raw cfg resolve now feed_name) raw_signals)
                     @ later)))"

section \<open>Arbitrage scanner (\<open>agents/arbitrage_agent.py\<close>)\<close>

text \<open>
  The body of the loop of \<open>scan\<close> from the two probabilities on. \<open>arb_emit\<close> is the
  part after the side has been decided (odds, Kelly gate, signal); \<open>None\<close> is
  \<open>continue\<close>.
\<close>

definition arb_emit ::
  "suite_config \<Rightarrow> string \<Rightarrow> string \<Rightarrow> real \<Rightarrow> real \<Rightarrow> side \<Rightarrow> real \<Rightarrow> real \<Rightarrow> real \<Rightarrow>
   py_error + signal option" where
  "arb_emit cfg now tk kalshi_prob ext_prob sd p market_price edge1 =
     (if market_price \<le> 0 \<or> 1 \<le> market_price then Inr None
      else
        (case fdiv 1 market_price of
           Inl e \<Rightarrow> Inl e
         | Inr q \<Rightarrow>
            (case kelly_criterion p (q - 1) of
               Inl e \<Rightarrow> Inl e
             | Inr f_star \<Rightarrow>
                (if f_star < kelly_edge_min cfg then Inr None
                 else Inr (Some \<lparr>source = ARBITRAGE, ticker = tk, side = sd,
                                 implied_prob = kalshi_prob,
                                 estimated_fair_prob =
                                   (if sd = YES then ext_prob else 1 - ext_prob),
                                 edge = edge1,
                                 confidence = min f_star 1,
                                 rationale = CrossPlatformArb kalshi_prob ext_prob f_star,
                                 timestamp = now\<rparr>)))))"

definition arb_signal ::
  "suite_config \<Rightarrow> string \<Rightarrow> string \<Rightarrow> real \<Rightarrow> real \<Rightarrow> py_error + signal option" where
  "arb_signal cfg now tk kalshi_prob ext_prob =
     (let edge0 = ext_prob - kalshi_prob
      in if 0 < edge0
         then arb_emit cfg now tk kalshi_prob ext_prob YES ext_prob kalshi_prob edge0
         else if edge0 < 0
         then arb_emit cfg now tk kalshi_prob ext_prob NO (1 - ext_prob) (1 - kalshi_prob)
                \<bar>edge0\<bar>
         else Inr None)"

text \<open>
  One matched pair: the Kalshi market \<open>km\<close> and the external market \<open>em\<close>, both
  dictionaries, \<open>tk\<close> being \<open>km["ticker"]\<close>. The conversion of the external price is
  guarded for \<open>TypeError\<close> and \<open>ValueError\<close> only.
\<close>

definition scan_pair ::
  "suite_config \<Rightarrow> (string \<Rightarrow> real option) \<Rightarrow> string \<Rightarrow> string \<Rightarrow>
   (string \<times> json) list \<Rightarrow> (string \<times> json) list \<Rightarrow> py_error + signal option" where
  "scan_pair cfg float_of_str now tk km em =
     (case div_100 (py_or (dict_get km ''yes_price'' (JInt 0))
                          (dict_get km ''last_price'' (JInt 50))) of
        Inl e \<Rightarrow> Inl e
      | Inr kalshi_prob \<Rightarrow>
         (case subscript_0 (dict_get em ''outcomePrices'' (JArr [JNull, JNull])) of
            Inl e \<Rightarrow> Inl e
          | Inr first \<Rightarrow>
             (case py_float float_of_str
                     (py_or first
                        (dict_get em ''yes_price''
                           (dict_get em ''lastTradePrice'' (JFloat (1 / 2))))) of
                Inl e \<Rightarrow> (if e = TypeError \<or> e = ValueError then Inr None else Inl e)
              | Inr ext_prob \<Rightarrow> arb_signal cfg now tk kalshi_prob ext_prob)))"

fun scan_pairs ::
  "suite_config \<Rightarrow> (string \<Rightarrow> real option) \<Rightarrow> string \<Rightarrow>
   (string \<times> (string \<times> json) list \<times> (string \<times> json) list) list \<Rightarrow> py_error + signal list" where
  "scan_pairs cfg float_of_str now [] = Inr []"
| "scan_pairs cfg float_of_str now ((tk, km, em) # pairs) =
     (case scan_pair cfg float_of_str now tk km em of
        Inl e \<Rightarrow> Inl e
      | Inr found \<Rightarrow>
         (case scan_pairs cfg float_of_str now pairs of
            Inl e \<Rightarrow> Inl e
          | Inr later \<Rightarrow> Inr ((case found of Some sg \<Rightarrow> [sg] | None \<Rightarrow> []) @ later)))"

section \<open>Orders and execution (\<open>agents/risk_execution_agent.py\<close>)\<close>

record trade_order =
  order_ticker :: string
  order_side :: side
  contracts :: int
  limit_price_cents :: int
  order_signal :: signal
  order_kelly :: kelly_result
  paper :: bool
  order_id :: "string option"
  fill_price_cents :: "int option"
  order_timestamp :: string

text \<open>The price of \<open>build_order\<close>: truncate, mirror for NO, clamp.\<close>

definition order_price_cents :: "signal \<Rightarrow> int" where
  "order_price_cents s =
     (let price0 = py_int (implied_prob s * 100);
          price1 = (if side s = NO then 100 - price0 else price0)
      in max 1 (min 99 price1))"

definition build_order ::
  "suite_config \<Rightarrow> signal \<Rightarrow> kelly_result \<Rightarrow> string \<Rightarrow> py_error + trade_order option" where
  "build_order cfg s kelly now =
     (if \<not> should_trade kelly then Inr None
      else
        (let price_cents = order_price_cents s
         in case fdiv (position_size_usd kelly * 100) (of_int price_cents) of
              Inl e \<Rightarrow> Inl e
            | Inr q \<Rightarrow>
                Inr (Some \<lparr>order_ticker = ticker s, order_side = side s,
                            contracts = max 1 (py_int q),
                            limit_price_cents = price_cents,
                            order_signal = s, order_kelly = kelly,
                            paper = paper_trading cfg,
                            order_id = None, fill_price_cents = None,
                            order_timestamp = now\<rparr>)))"

text \<open>\<open>build_order\<close> in the binary64 reading.\<close>

definition order_price_cents_f64 :: "signal \<Rightarrow> int" where
  "order_price_cents_f64 s =
     (let price0 = py_int (fmul64 (implied_prob s) 100);
          price1 = (if side s = NO then 100 - price0 else price0)
      in max 1 (min 99 price1))"

definition build_order_f64 ::
  "suite_config \<Rightarrow> signal \<Rightarrow> kelly_result \<Rightarrow> string \<Rightarrow> py_error + trade_order option" where
  "build_order_f64 cfg s kelly now =
     (if \<not> should_trade kelly then Inr None
      else
        (let price_cents = order_price_cents_f64 s
         in case fdiv64 (fmul64 (position_size_usd kelly) 100) (of_int price_cents) of
              Inl e \<Rightarrow> Inl e
            | Inr q \<Rightarrow>
                Inr (Some \<lparr>order_ticker = ticker s, order_side = side s,
                            contracts = max 1 (py_int q),
                            limit_price_cents = price_cents,
                            order_signal = s, order_kelly = kelly,
                            paper = paper_trading cfg,
                            order_id = None, fill_price_cents = None,
                            order_timestamp = now\<rparr>)))"

text \<open>The \<open>.value\<close> of the two string enums.\<close>

fun side_value :: "side \<Rightarrow> string" where
  "side_value YES = ''yes''"
| "side_value NO = ''no''"

fun source_value :: "signal_source \<Rightarrow> string" where
  "source_value ORDERBOOK = ''orderbook''"
| "source_value NLP = ''nlp''"
| "source_value ARBITRAGE = ''arbitrage''"

text \<open>
  One line of \<open>paper_trades.jsonl\<close>: the dictionary handed to \<open>json.dumps\<close>, which
  escapes every line break, so that one write is one line of the file.
\<close>

record journal_record =
  jr_timestamp :: string
  jr_ticker :: string
  jr_side :: string
  jr_contracts :: int
  jr_limit_price_cents :: int
  jr_fill_price_cents :: "int option"
  jr_kelly_f_star :: real
  jr_position_usd :: real
  jr_net_ev :: real
  jr_source :: string
  jr_rationale :: rationale
  jr_paper :: bool

text \<open>The body of \<open>POST /portfolio/orders\<close> built by \<open>KalshiClient.place_order\<close>.\<close>

record post_body =
  pb_ticker :: string
  pb_action :: string
  pb_side :: string
  pb_type :: string
  pb_count :: int
  pb_yes_price :: "int option"
  pb_no_price :: "int option"

text \<open>
  What execution can touch: the lines of the journal file, in order, and the POST
  requests sent to the orders endpoint, in order.
\<close>

record world =
  journal :: "journal_record list"
  posts :: "post_body list"

definition paper_execute :: "trade_order \<Rightarrow> world \<Rightarrow> trade_order \<times> world" where
  "paper_execute order w =
     (let order1 = order\<lparr>fill_price_cents := Some (limit_price_cents order)\<rparr>;
          rec = \<lparr>jr_timestamp = order_timestamp order1,
                 jr_ticker = order_ticker order1,
                 jr_side = side_value (order_side order1),
                 jr_contracts = contracts order1,
                 jr_limit_price_cents = limit_price_cents order1,
                 jr_fill_price_cents = fill_price_cents order1,
                 jr_kelly_f_star = round_ndigits (optimal_fraction (order_kelly order1)) 4,
                 jr_position_usd = position_size_usd (order_kelly order1),
                 jr_net_ev = net_ev (order_kelly order1),
                 jr_source = source_value (source (order_signal order1)),
                 jr_rationale = rationale (order_signal order1),
                 jr_paper = True\<rparr>
      in (order1, w\<lparr>journal := journal w @ [rec]\<rparr>))"

text \<open>
  \<open>exchange\<close> is the orders endpoint: it answers a POST with an exception or with the
  \<open>order_id\<close> found under \<open>order\<close> in the reply, if any. Any exception is caught and
  logged, and the order comes back without an id.
\<close>

definition live_execute ::
  "(post_body \<Rightarrow> py_error + string option) \<Rightarrow> trade_order \<Rightarrow> world \<Rightarrow> trade_order \<times> world" where
  "live_execute exchange order w =
     (let body = \<lparr>pb_ticker = order_ticker order, pb_action = ''buy'',
                  pb_side = side_value (order_side order), pb_type = ''limit'',
                  pb_count = contracts order,
                  pb_yes_price = (if order_side order = YES
                                  then Some (limit_price_cents order) else None),
                  pb_no_price = (if order_side order = YES
                                 then None else Some (limit_price_cents order))\<rparr>;
          w1 = w\<lparr>posts := posts w @ [body]\<rparr>
      in case exchange body of
           Inl e \<Rightarrow> (order, w1)
         | Inr oid \<Rightarrow> (order\<lparr>order_id := oid\<rparr>, w1))"

definition execute ::
  "(post_body \<Rightarrow> py_error + string option) \<Rightarrow> trade_order \<Rightarrow> world \<Rightarrow> trade_order \<times> world" where
  "execute exchange order w =
     (if paper order then paper_execute order w else live_execute exchange order w)"

text \<open>
  \<open>process_signals\<close>: the loop over the batch. \<open>clock\<close> gives the instant stamped on
  the order built from a signal.
\<close>

fun process_signals ::
  "(post_body \<Rightarrow> py_error + string option) \<Rightarrow> suite_config \<Rightarrow> (signal \<Rightarrow> string) \<Rightarrow>
   signal list \<Rightarrow> real \<Rightarrow> world \<Rightarrow> (py_error + trade_order list) \<times> world" where
  "process_signals exchange cfg clock [] bankroll_usd w = (Inr [], w)"
| "process_signals exchange cfg clock (sig # sigs) bankroll_usd w =
     (case size_signal cfg sig bankroll_usd of
        Inl e \<Rightarrow> (Inl e, w)
      | Inr kelly \<Rightarrow>
         (case build_order cfg sig kelly (clock sig) of
            Inl e \<Rightarrow> (Inl e, w)
          | Inr None \<Rightarrow> process_signals exchange cfg clock sigs bankroll_usd w
          | Inr (Some order) \<Rightarrow>
             (case execute exchange order w of
                (order1, w1) \<Rightarrow>
                  (case process_signals exchange cfg clock sigs bankroll_usd w1 of
                     (Inl e, w2) \<Rightarrow> (Inl e, w2)
                   | (Inr orders, w2) \<Rightarrow> (Inr (order1 # orders), w2)))))"

section \<open>One orchestrator cycle (\<open>orchestrator.py\<close>)\<close>

text \<open>
  \<open>asyncio.gather\<close> over tasks that have each ended with an exception (\<open>Inl\<close>) or a
  value (\<open>Inr\<close>). With \<open>return_exceptions=True\<close> every outcome comes back as an
  element of the result list; with \<open>return_exceptions=False\<close> an exception of a task
  is raised out of the \<open>await\<close>. The earliest failed task in argument order stands for
  the one that raised first.
\<close>

fun first_exception :: "(py_error + 'a) list \<Rightarrow> py_error option" where
  "first_exception [] = None"
| "first_exception (Inl e # rs) = Some e"
| "first_exception (Inr v # rs) = first_exception rs"

definition gather :: "bool \<Rightarrow> (py_error + 'a) list \<Rightarrow> py_error + (py_error + 'a) list" where
  "gather return_exceptions outcomes =
     (if return_exceptions then Inr outcomes
      else case first_exception outcomes of Some e \<Rightarrow> Inl e | None \<Rightarrow> Inr outcomes)"

text \<open>\<open>all_signals.extend(x)\<close> under \<open>isinstance(x, list)\<close>.\<close>

fun extend_if_list :: "signal list \<Rightarrow> py_error + signal list \<Rightarrow> signal list" where
  "extend_if_list acc (Inr xs) = acc @ xs"
| "extend_if_list acc (Inl e) = acc"

text \<open>
  \<open>run_cycle\<close>, given how each of the three producer tasks ended.
\<close>

definition run_cycle ::
  "(post_body \<Rightarrow> py_error + string option) \<Rightarrow> suite_config \<Rightarrow> (signal \<Rightarrow> string) \<Rightarrow>
   py_error + signal list \<Rightarrow> py_error + signal list \<Rightarrow> py_error + signal list \<Rightarrow>
   real \<Rightarrow> world \<Rightarrow> (py_error + unit) \<times> world" where
  "run_cycle exchange cfg clock ob_task nlp_task arb_task bankroll_usd w =
     (case gather False [ob_task, nlp_task, arb_task] of
        Inl e \<Rightarrow> (Inl e, w)
      | Inr results \<Rightarrow>
         (case results of
            [ob_signals, nlp_signals, arb_signals] \<Rightarrow>
              (let all_signals =
                     extend_if_list (extend_if_list (extend_if_list [] ob_signals) nlp_signals)
                       arb_signals
               in if all_signals = [] then (Inr (), w)
                  else case process_signals exchange cfg clock all_signals bankroll_usd w of
                         (Inl e, w1) \<Rightarrow> (Inl e, w1)
                       | (Inr orders, w1) \<Rightarrow> (Inr (), w1))
          | _ \<Rightarrow> (Inl ValueError, w)))"

section \<open>Specified behaviour and concrete inputs\<close>

text \<open>
  The scenario "Kelly at even money, 60% fair": no fee, full Kelly, a cap of 10000 USD,
  and the default gate of 0.05.
\<close>

definition cfg_even :: suite_config where
  "cfg_even = \<lparr>paper_trading = True, kalshi_fee_rate = 0, spread_threshold_cents = 3,
     kelly_edge_min = 5 / 100, nlp_prob_shift_min = 1 / 10, max_position_usd = 10000,
     cfg_kelly_fraction = 1\<rparr>"

definition sig_even :: signal where
  "sig_even = \<lparr>source = ORDERBOOK, ticker = ''TEST-TICKER'', side = YES,
     implied_prob = 1 / 2, estimated_fair_prob = 6 / 10, edge = 1 / 10,
     confidence = 8 / 10, rationale = Plain ''test signal'', timestamp = ''t0''\<rparr>"

definition kelly_even :: kelly_result where
  "kelly_even = \<lparr>optimal_fraction = 2 / 10, position_size_usd = 200, net_ev = 2 / 10,
     should_trade = True\<rparr>"

definition order_even :: trade_order where
  "order_even = \<lparr>order_ticker = ''TEST-TICKER'', order_side = YES, contracts = 400,
     limit_price_cents = 50, order_signal = sig_even, order_kelly = kelly_even,
     paper = True, order_id = None, fill_price_cents = None, order_timestamp = ''t1''\<rparr>"

text \<open>The defaults of \<open>config.py\<close>.\<close>

definition cfg_default :: suite_config where
  "cfg_default = \<lparr>paper_trading = True, kalshi_fee_rate = 7 / 100,
     spread_threshold_cents = 3, kelly_edge_min = 5 / 100, nlp_prob_shift_min = 1 / 10,
     max_position_usd = 500, cfg_kelly_fraction = 25 / 100\<rparr>"

text \<open>
  The even-money scenario in the binary64 reading: the decimal literals 0.6, 0.05 and
  0.8 are the doubles nearest to them, and the edge is the one the test helper computes.
\<close>

definition cfg_even_f64 :: suite_config where
  "cfg_even_f64 = \<lparr>paper_trading = True, kalshi_fee_rate = 0, spread_threshold_cents = 3,
     kelly_edge_min = rd (5 / 100), nlp_prob_shift_min = rd (1 / 10),
     max_position_usd = 10000, cfg_kelly_fraction = 1\<rparr>"

definition sig_even_f64 :: signal where
  "sig_even_f64 = \<lparr>source = ORDERBOOK, ticker = ''TEST-TICKER'', side = YES,
     implied_prob = 1 / 2, estimated_fair_prob = rd (6 / 10),
     edge = fsub64 (rd (6 / 10)) (1 / 2), confidence = rd (8 / 10),
     rationale = Plain ''test signal'', timestamp = ''t0''\<rparr>"

text \<open>The quotient of two doubles where the text divides, 0 on a zero divisor.\<close>

definition quot64 :: "real \<Rightarrow> real \<Rightarrow> real" where
  "quot64 a b = (case fdiv64 a b of Inr q \<Rightarrow> q | Inl e \<Rightarrow> 0)"

text \<open>
  What the specification says of sizing, word for word, in binary64 arithmetic: no
  rounding of the position and of the expected value to decimals, and the Kelly quotient
  whatever the sign of \<open>net_b\<close>.
\<close>

definition size_as_specified_f64 :: "suite_config \<Rightarrow> signal \<Rightarrow> real \<Rightarrow> kelly_result" where
  "size_as_specified_f64 cfg s bankroll_usd =
     (let p = (if side s = YES then estimated_fair_prob s
               else fsub64 1 (estimated_fair_prob s));
          market_price = (if side s = YES then implied_prob s
                          else fsub64 1 (implied_prob s))
      in if market_price \<le> 0 \<or> 1 \<le> market_price
         then \<lparr>optimal_fraction = 0, position_size_usd = 0, net_ev = 0, should_trade = False\<rparr>
         else
           (let net_b = fmul64 (fsub64 (quot64 1 market_price) 1)
                               (fsub64 1 (kalshi_fee_rate cfg));
                f_star = quot64 (fsub64 (fmul64 p (fadd64 net_b 1)) 1) net_b;
                position_usd = min (fmul64 (max 0 (fmul64 f_star (cfg_kelly_fraction cfg)))
                                           bankroll_usd)
                                   (max_position_usd cfg);
                ev = fsub64 (fmul64 p net_b) (fsub64 1 p)
            in \<lparr>optimal_fraction = f_star, position_size_usd = position_usd, net_ev = ev,
                should_trade = (kelly_edge_min cfg < f_star \<and> 0 < ev \<and> 0 < position_usd)\<rparr>))"

text \<open>
  What the specification says of the order price and the contract count: the price is
  rounded to the nearest cent.
\<close>

definition price_as_specified_f64 :: "signal \<Rightarrow> int" where
  "price_as_specified_f64 s =
     (let price0 = py_round (fmul64 (implied_prob s) 100);
          price1 = (if side s = NO then 100 - price0 else price0)
      in max 1 (min 99 price1))"

definition contracts_as_specified_f64 :: "signal \<Rightarrow> kelly_result \<Rightarrow> int" where
  "contracts_as_specified_f64 s kelly =
     max 1 \<lfloor>quot64 (fmul64 (position_size_usd kelly) 100)
                       (of_int (price_as_specified_f64 s))\<rfloor>"

text \<open>
  A signal at 29 cents: the implied probability is the double 29/100, as the orderbook
  scanner computes it from a best YES bid of 29 and the arbitrage scanner from a
  \<open>yes_price\<close> of 29.
\<close>

definition sig_29 :: signal where
  "sig_29 = \<lparr>source = ORDERBOOK, ticker = ''TEST-TICKER'', side = YES,
     implied_prob = rd (29 / 100), estimated_fair_prob = rd (6 / 10),
     edge = fsub64 (rd (6 / 10)) (rd (29 / 100)), confidence = 1,
     rationale = Plain ''test signal'', timestamp = ''t0''\<rparr>"

definition kelly_100 :: kelly_result where
  "kelly_100 = \<lparr>optimal_fraction = 1 / 4, position_size_usd = 100, net_ev = 1 / 2,
     should_trade = True\<rparr>"

text \<open>An exchange that accepts every order, and an empty world.\<close>

definition exchange_ok :: "post_body \<Rightarrow> py_error + string option" where
  "exchange_ok body = Inr (Some ''order-1'')"

definition world_0 :: world where
  "world_0 = \<lparr>journal = [], posts = []\<rparr>"

text \<open>A clock that reads the same instant for every order.\<close>

definition clock_1 :: "signal \<Rightarrow> string" where
  "clock_1 s = ''t1''"

text \<open>The journal line of the even-money order.\<close>

definition line_even :: journal_record where
  "line_even = \<lparr>jr_timestamp = ''t1'', jr_ticker = ''TEST-TICKER'', jr_side = ''yes'',
     jr_contracts = 400, jr_limit_price_cents = 50, jr_fill_price_cents = Some 50,
     jr_kelly_f_star = 2 / 10, jr_position_usd = 200, jr_net_ev = 2 / 10,
     jr_source = ''orderbook'', jr_rationale = Plain ''test signal'', jr_paper = True\<rparr>"

text \<open>
  The invariant of the data model: a YES signal has its fair probability at or above the
  implied one, a NO signal at or below, and the edge is their absolute difference.
\<close>

definition signal_invariant :: "signal \<Rightarrow> bool" where
  "signal_invariant s =
     ((if side s = YES then implied_prob s \<le> estimated_fair_prob s
       else estimated_fair_prob s \<le> implied_prob s) \<and>
      edge s = \<bar>estimated_fair_prob s - implied_prob s\<bar>)"

text \<open>
  Orderbooks: the liquidity void of the specification, a book without spread, and a
  book with no YES bid.
\<close>

definition book_void :: raw_orderbook where
  "book_void = \<lparr>under_orderbook = None,
                 top_level = \<lparr>yes_side = Some [[40, 100]], no_side = Some [[55, 80]]\<rparr>\<rparr>"

definition book_tight :: raw_orderbook where
  "book_tight = \<lparr>under_orderbook = None,
                  top_level = \<lparr>yes_side = Some [[45, 10]], no_side = Some [[55, 10]]\<rparr>\<rparr>"

definition book_no_yes :: raw_orderbook where
  "book_no_yes = \<lparr>under_orderbook = None,
                   top_level = \<lparr>yes_side = None, no_side = Some [[60, 10]]\<rparr>\<rparr>"

text \<open>
  A matched pair: the exchange prices YES at 60 cents, the external venue at 0.30.
\<close>

definition km_60 :: "(string \<times> json) list" where
  "km_60 = [(''ticker'', JStr ''KXTEST''), (''title'', JStr ''Will the test market resolve yes''),
            (''yes_price'', JInt 60)]"

definition em_30 :: "(string \<times> json) list" where
  "em_30 = [(''question'', JStr ''Will the test market resolve yes''),
            (''yes_price'', JFloat (3 / 10))]"

text \<open>A reader of numbers that accepts no string.\<close>

definition no_float :: "string \<Rightarrow> real option" where
  "no_float s = None"

text \<open>
  The network answers the requests from the \<open>n\<close>-th on with 429, once for each element
  of \<open>ws\<close>, the element being the wait the client reads from that reply, not negative.
\<close>

fun throttled ::
  "(string \<Rightarrow> int option) \<Rightarrow> (nat \<Rightarrow> py_error + response) \<Rightarrow> nat \<Rightarrow> int list \<Rightarrow> bool" where
  "throttled parse_int network n [] = True"
| "throttled parse_int network n (w # ws) =
     (case network n of
        Inl e \<Rightarrow> False
      | Inr r \<Rightarrow> status_code r = 429 \<and> wait_seconds parse_int r = Inr w \<and> 0 \<le> w \<and>
                 throttled parse_int network (Suc n) ws)"

text \<open>
  Replies and networks of the client tests: a 429 with \<open>Retry-After: 1\<close>, a 200 with a
  body, a network that answers 429 then 200, and one that always answers 429 with no
  header.
\<close>

definition resp_429 :: response where
  "resp_429 = \<lparr>status_code = 429, retry_after = Some ''1'', json_payload = None\<rparr>"

definition body_200 :: json where
  "body_200 = JObj [(''exchange_active'', JBool True), (''trading_active'', JBool True)]"

definition resp_200 :: response where
  "resp_200 = \<lparr>status_code = 200, retry_after = None, json_payload = Some body_200\<rparr>"

definition net_429_then_200 :: "nat \<Rightarrow> py_error + response" where
  "net_429_then_200 n = (if n = 0 then Inr resp_429 else Inr resp_200)"

definition net_always_429 :: "nat \<Rightarrow> py_error + response" where
  "net_always_429 n = Inr (resp_429\<lparr>retry_after := None\<rparr>)"

text \<open>A reader of integers that knows the string \<open>1\<close>, as \<open>int\<close> reads it.\<close>

definition int_of_one :: "string \<Rightarrow> int option" where
  "int_of_one s = (if s = ''1'' then Some 1 else None)"

definition net_0 :: net where
  "net_0 = \<lparr>requests_made = 0, sleeps = []\<rparr>"










section \<open>Helper lemmas\<close>

lemma max_one_py_int: "max 1 (py_int x) = max 1 \<lfloor>x\<rfloor>"
proof (cases "0 \<le> x")
  case True
  then show ?thesis by (simp add: py_int_def)
next
  case False
  then have neg: "x < 0" by simp
  then have "\<lceil>x\<rceil> \<le> 0" by (simp add: ceiling_le_zero)
  moreover from neg have "\<lfloor>x\<rfloor> \<le> 0" by (simp add: floor_le_zero)
  ultimately show ?thesis using False by (simp add: py_int_def max_def)
qed

lemma order_price_cents_bounds: "1 \<le> order_price_cents s \<and> order_price_cents s \<le> 99"
  by (simp add: order_price_cents_def Let_def)

lemma build_order_trade:
  assumes "should_trade k"
  shows "build_order cfg s k now =
     Inr (Some \<lparr>order_ticker = ticker s, order_side = side s,
                 contracts = max 1 \<lfloor>position_size_usd k * 100 / of_int (order_price_cents s)\<rfloor>,
                 limit_price_cents = order_price_cents s,
                 order_signal = s, order_kelly = k, paper = paper_trading cfg,
                 order_id = None, fill_price_cents = None, order_timestamp = now\<rparr>)"
proof -
  have nz: "(of_int (order_price_cents s) :: real) \<noteq> 0"
    using order_price_cents_bounds [of s] by simp
  show ?thesis
    using assms nz by (simp add: build_order_def Let_def fdiv_def max_one_py_int)
qed

lemma build_order_skip: "\<not> should_trade k \<Longrightarrow> build_order cfg s k now = Inr None"
  by (simp add: build_order_def)

lemma build_order_even: "build_order cfg_even sig_even kelly_even ''t1'' = Inr (Some order_even)"
  by (simp add: build_order_def order_price_cents_def py_int_def fdiv_def Let_def
      cfg_even_def sig_even_def kelly_even_def order_even_def)

lemma size_signal_unfolded:
  "size_signal cfg s bankroll_usd =
     (if size_market_price s \<le> 0 \<or> 1 \<le> size_market_price s
      then Inr \<lparr>optimal_fraction = 0, position_size_usd = 0, net_ev = 0, should_trade = False\<rparr>
      else
        (let net_b = (1 / size_market_price s - 1) * (1 - kalshi_fee_rate cfg);
             f_star = (if net_b \<le> 0 then 0 else (size_p s * (net_b + 1) - 1) / net_b);
             position_usd = min (max 0 (f_star * cfg_kelly_fraction cfg) * bankroll_usd)
                                (max_position_usd cfg);
             ev = size_p s * net_b - (1 - size_p s)
         in Inr \<lparr>optimal_fraction = f_star,
                  position_size_usd = round_ndigits position_usd 2,
                  net_ev = round_ndigits ev 4,
                  should_trade = (kelly_edge_min cfg < f_star \<and> 0 < ev \<and> 0 < position_usd)\<rparr>))"
  by (simp add: size_signal_def Let_def fdiv_def kelly_fraction_def net_payout_after_fees_def)

lemma size_signal_even:
  "size_signal cfg_even sig_even 1000 = Inr kelly_even"
  by (simp add: size_signal_unfolded size_p_def size_market_price_def cfg_even_def sig_even_def
      kelly_even_def round_ndigits_def py_round_def Let_def)

subsection \<open>Evaluating binary64 operations\<close>

text \<open>
  One step of the search for the exponent at a numeral, the facts that evaluate a
  rounding, and the single operations that the concrete traces below are made of, each
  evaluated from the definition of \<open>rd\<close>.
\<close>

lemma binade_numeral:
  "binade (numeral k) x e =
     (if 2 ^ 53 \<le> x then binade (pred_numeral k) (x / 2) (e + 1)
      else if x < 2 ^ 52 then binade (pred_numeral k) (x * 2) (e - 1)
      else e)"
  by (simp add: numeral_eq_Suc)

lemmas rd_eval = rd_def round_at_def binade_numeral pow2_def py_round_def Let_def

lemmas f64_eval = fadd64_def fsub64_def fmul64_def fdiv64_def round_f64_def round_ndigits_def
  rd_eval

lemma f64_op_1: "rd (3 / 5) = 5404319552844595 / 9007199254740992"
  by (simp add: f64_eval)

lemma f64_op_2: "rd (1 / 20) = 3602879701896397 / 72057594037927936"
  by (simp add: f64_eval)

lemma f64_op_3: "rd (7 / 100) = 1261007895663739 / 18014398509481984"
  by (simp add: f64_eval)

lemma f64_op_4: "rd (21 / 40) = 4728779608739021 / 9007199254740992"
  by (simp add: f64_eval)

lemma f64_op_5: "fdiv64 1 (1 / 2) = Inr (2)"
  by (simp add: f64_eval)

lemma f64_op_6: "fsub64 2 1 = 1"
  by (simp add: f64_eval)

lemma f64_op_7: "fsub64 1 0 = 1"
  by (simp add: f64_eval)

lemma f64_op_8: "fmul64 1 1 = 1"
  by (simp add: f64_eval)

lemma f64_op_9: "fadd64 1 1 = 2"
  by (simp add: f64_eval)

lemma f64_op_10: "fmul64 (5404319552844595 / 9007199254740992) 2 = 5404319552844595 / 4503599627370496"
  by (simp add: f64_eval)

lemma f64_op_11: "fsub64 (5404319552844595 / 4503599627370496) 1 = 900719925474099 / 4503599627370496"
  by (simp add: f64_eval)

lemma f64_op_12: "fdiv64 (900719925474099 / 4503599627370496) 1 = Inr (900719925474099 / 4503599627370496)"
  by (simp add: f64_eval)

lemma f64_op_13: "fmul64 (900719925474099 / 4503599627370496) 1 = 900719925474099 / 4503599627370496"
  by (simp add: f64_eval)

lemma f64_op_14: "fmul64 (900719925474099 / 4503599627370496) 1000 = 3518437208883199 / 17592186044416"
  by (simp add: f64_eval)

lemma f64_op_15: "fmul64 (5404319552844595 / 9007199254740992) 1 = 5404319552844595 / 9007199254740992"
  by (simp add: f64_eval)

lemma f64_op_16: "fsub64 1 (5404319552844595 / 9007199254740992) = 3602879701896397 / 9007199254740992"
  by (simp add: f64_eval)

lemma f64_op_17: "fsub64 (5404319552844595 / 9007199254740992) (3602879701896397 / 9007199254740992) = 900719925474099 / 4503599627370496"
  by (simp add: f64_eval)

lemma f64_op_18: "round_f64 (3518437208883199 / 17592186044416) 2 = 200"
  by (simp add: f64_eval)

lemma f64_op_19: "round_f64 (900719925474099 / 4503599627370496) 4 = 3602879701896397 / 18014398509481984"
  by (simp add: f64_eval)

lemma f64_op_20: "fsub64 1 (1261007895663739 / 18014398509481984) = 4188347653454561 / 4503599627370496"
  by (simp add: f64_eval)

lemma f64_op_21: "fmul64 1 (4188347653454561 / 4503599627370496) = 4188347653454561 / 4503599627370496"
  by (simp add: f64_eval)

lemma f64_op_22: "fadd64 (4188347653454561 / 4503599627370496) 1 = 8691947280825057 / 4503599627370496"
  by (simp add: f64_eval)

lemma f64_op_23: "fmul64 (5404319552844595 / 9007199254740992) (8691947280825057 / 4503599627370496) = 2607584184247517 / 2251799813685248"
  by (simp add: f64_eval)

lemma f64_op_24: "fsub64 (2607584184247517 / 2251799813685248) 1 = 355784370562269 / 2251799813685248"
  by (simp add: f64_eval)

lemma f64_op_25: "fdiv64 (355784370562269 / 2251799813685248) (4188347653454561 / 4503599627370496) = Inr (1530255357257071 / 9007199254740992)"
  by (simp add: f64_eval)

lemma f64_op_26: "fmul64 (1530255357257071 / 9007199254740992) 1 = 1530255357257071 / 9007199254740992"
  by (simp add: f64_eval)

lemma f64_op_27: "fmul64 (1530255357257071 / 9007199254740992) 1000 = 2988779994642717 / 17592186044416"
  by (simp add: f64_eval)

lemma f64_op_28: "fmul64 (5404319552844595 / 9007199254740992) (4188347653454561 / 4503599627370496) = 5026017184145473 / 9007199254740992"
  by (simp add: f64_eval)

lemma f64_op_29: "fsub64 (5026017184145473 / 9007199254740992) (3602879701896397 / 9007199254740992) = 355784370562269 / 2251799813685248"
  by (simp add: f64_eval)

lemma f64_op_30: "round_f64 (2988779994642717 / 17592186044416) 2 = 1494368243542917 / 8796093022208"
  by (simp add: f64_eval)

lemma f64_op_31: "round_f64 (355784370562269 / 2251799813685248) 4 = 5692549928996307 / 36028797018963968"
  by (simp add: f64_eval)

lemma f64_op_32: "fmul64 (4728779608739021 / 9007199254740992) 2 = 4728779608739021 / 4503599627370496"
  by (simp add: f64_eval)

lemma f64_op_33: "fsub64 (4728779608739021 / 4503599627370496) 1 = 225179981368525 / 4503599627370496"
  by (simp add: f64_eval)

lemma f64_op_34: "fdiv64 (225179981368525 / 4503599627370496) 1 = Inr (225179981368525 / 4503599627370496)"
  by (simp add: f64_eval)

lemma f64_op_35: "fmul64 (225179981368525 / 4503599627370496) 1 = 225179981368525 / 4503599627370496"
  by (simp add: f64_eval)

lemma f64_op_36: "fmul64 (225179981368525 / 4503599627370496) 1000 = 3518437208883203 / 70368744177664"
  by (simp add: f64_eval)

lemma f64_op_37: "fmul64 (4728779608739021 / 9007199254740992) 1 = 4728779608739021 / 9007199254740992"
  by (simp add: f64_eval)

lemma f64_op_38: "fsub64 1 (4728779608739021 / 9007199254740992) = 4278419646001971 / 9007199254740992"
  by (simp add: f64_eval)

lemma f64_op_39: "fsub64 (4728779608739021 / 9007199254740992) (4278419646001971 / 9007199254740992) = 225179981368525 / 4503599627370496"
  by (simp add: f64_eval)

lemma f64_op_40: "round_f64 (3518437208883203 / 70368744177664) 2 = 50"
  by (simp add: f64_eval)

lemma f64_op_41: "round_f64 (225179981368525 / 4503599627370496) 4 = 3602879701896397 / 72057594037927936"
  by (simp add: f64_eval)

lemma f64_op_42: "fsub64 1 2 = - 1"
  by (simp add: f64_eval)

lemma f64_op_43: "fmul64 1 (- 1) = - 1"
  by (simp add: f64_eval)

lemma f64_op_44: "fmul64 0 1 = 0"
  by (simp add: f64_eval)

lemma f64_op_45: "fmul64 0 1000 = 0"
  by (simp add: f64_eval)

lemma f64_op_46: "fmul64 (5404319552844595 / 9007199254740992) (- 1) = - (5404319552844595 / 9007199254740992)"
  by (simp add: f64_eval)

lemma f64_op_47: "fsub64 (- (5404319552844595 / 9007199254740992)) (3602879701896397 / 9007199254740992) = - 1"
  by (simp add: f64_eval)

lemma f64_op_48: "round_f64 0 2 = 0"
  by (simp add: f64_eval)

lemma f64_op_49: "round_f64 (- 1) 4 = - 1"
  by (simp add: f64_eval)

lemma f64_op_50: "fadd64 (- 1) 1 = 0"
  by (simp add: f64_eval)

lemma f64_op_51: "fmul64 (5404319552844595 / 9007199254740992) 0 = 0"
  by (simp add: f64_eval)

lemma f64_op_52: "fsub64 0 1 = - 1"
  by (simp add: f64_eval)

lemma f64_op_53: "fdiv64 (- 1) (- 1) = Inr (1)"
  by (simp add: f64_eval)

lemma f64_op_54: "rd (29 / 100) = 5224175567749775 / 18014398509481984"
  by (simp add: f64_eval)

lemma f64_op_55: "fmul64 (5224175567749775 / 18014398509481984) 100 = 8162774324609023 / 281474976710656"
  by (simp add: f64_eval)

lemma f64_op_56: "fmul64 100 100 = 10000"
  by (simp add: f64_eval)

lemma f64_op_57: "fdiv64 10000 28 = Inr (6282923587291429 / 17592186044416)"
  by (simp add: f64_eval)

lemma f64_op_58: "fdiv64 10000 29 = Inr (6066271049798621 / 17592186044416)"
  by (simp add: f64_eval)

lemma f64_op_59: "fdiv64 10000 72 = Inr (4886718345671111 / 35184372088832)"
  by (simp add: f64_eval)

lemma f64_op_60: "fdiv64 10000 71 = Inr (4955545364624225 / 35184372088832)"
  by (simp add: f64_eval)

lemma f64_op_61: "fmul64 1 1000 = 1000"
  by (simp add: f64_eval)

lemma f64_op_62: "rd (57 / 100) = 5134103575202365 / 9007199254740992"
  by (simp add: f64_eval)

lemma f64_op_63: "fmul64 (5134103575202365 / 9007199254740992) 100 = 8022036836253695 / 140737488355328"
  by (simp add: f64_eval)

lemma f64_op_64: "rd (29 / 50) = 5224175567749775 / 9007199254740992"
  by (simp add: f64_eval)

lemma f64_op_65: "fmul64 (5224175567749775 / 9007199254740992) 100 = 8162774324609023 / 140737488355328"
  by (simp add: f64_eval)

lemma f64_op_66: "rd (1 / 5) = 3602879701896397 / 18014398509481984"
  by (simp add: f64_eval)

lemma f64_op_67: "rd (16989 / 100) = 1494368243542917 / 8796093022208"
  by (simp add: f64_eval)

lemma f64_op_68: "rd (79 / 500) = 5692549928996307 / 36028797018963968"
  by (simp add: f64_eval)

lemma f64_op_69: "rd (4 / 5) = 3602879701896397 / 4503599627370496"
  by (simp add: f64_eval)

lemma f64_op_70: "rd (1 / 10) = 3602879701896397 / 36028797018963968"
  by (simp add: f64_eval)

lemma f64_op_71: "fsub64 (5404319552844595 / 9007199254740992) (1 / 2) = 900719925474099 / 9007199254740992"
  by (simp add: f64_eval)

lemma f64_op_72: "fsub64 (5404319552844595 / 9007199254740992) (5224175567749775 / 18014398509481984) = 5584463537939415 / 18014398509481984"
  by (simp add: f64_eval)

lemma f64_op_73: "rd (107 / 40) = 3011782250804019 / 1125899906842624"
  by (simp add: f64_eval)

lemma f64_op_74: "round_f64 (3011782250804019 / 1125899906842624) 2 = 1503076375634903 / 562949953421312"
  by (simp add: f64_eval)

lemma f64_op_75: "rd (267 / 100) = 1503076375634903 / 562949953421312"
  by (simp add: f64_eval)

lemmas f64_ops =
  f64_op_1 f64_op_2 f64_op_3 f64_op_4 f64_op_5 f64_op_6
  f64_op_7 f64_op_8 f64_op_9 f64_op_10 f64_op_11 f64_op_12
  f64_op_13 f64_op_14 f64_op_15 f64_op_16 f64_op_17 f64_op_18
  f64_op_19 f64_op_20 f64_op_21 f64_op_22 f64_op_23 f64_op_24
  f64_op_25 f64_op_26 f64_op_27 f64_op_28 f64_op_29 f64_op_30
  f64_op_31 f64_op_32 f64_op_33 f64_op_34 f64_op_35 f64_op_36
  f64_op_37 f64_op_38 f64_op_39 f64_op_40 f64_op_41 f64_op_42
  f64_op_43 f64_op_44 f64_op_45 f64_op_46 f64_op_47 f64_op_48
  f64_op_49 f64_op_50 f64_op_51 f64_op_52 f64_op_53 f64_op_54
  f64_op_55 f64_op_56 f64_op_57 f64_op_58 f64_op_59 f64_op_60
  f64_op_61 f64_op_62 f64_op_63 f64_op_64 f64_op_65 f64_op_66
  f64_op_67 f64_op_68 f64_op_69 f64_op_70 f64_op_71 f64_op_72
  f64_op_73 f64_op_74 f64_op_75

text \<open>
  \<open>round\<close> rounds the exact value of the double: the double 2.675 lies below the
  decimal 2.675 and goes to 2.67, where the decimal itself would go to 2.68.
\<close>

lemma round_f64_exact_double:
  "round_f64 (rd (2675 / 1000)) 2 = rd (267 / 100) \<and> round_ndigits (2675 / 1000) 2 = 268 / 100"
  by (simp add: f64_ops) (simp add: round_ndigits_def py_round_def Let_def)

section \<open>Kelly sizing\<close>

text \<open>
  C10. The two standalone Kelly functions are total. For every \<open>p\<close> and every \<open>b \<le> 0\<close>
  both return 0 and no division takes place; the quotient is computed only for
  \<open>0 < b\<close>, where the divisor is not zero, so neither function ever raises.
\<close>

theorem kelly_functions_total:
  "kelly_fraction p b = (if b \<le> 0 then Inr 0 else Inr ((p * (b + 1) - 1) / b)) \<and>
   kelly_criterion p b = (if b \<le> 0 then Inr 0 else Inr ((p * (b + 1) - 1) / b)) \<and>
   (b \<le> 0 \<longrightarrow> kelly_fraction p b = Inr 0 \<and> kelly_criterion p b = Inr 0) \<and>
   (\<exists>f. kelly_fraction p b = Inr f) \<and> (\<exists>f. kelly_criterion p b = Inr f)"
  by (simp add: kelly_fraction_def kelly_criterion_def fdiv_def)

theorem kelly_functions_total_witness:
  "(-1 :: real) \<le> 0 \<and> kelly_fraction (6 / 10) (-1) = Inr 0 \<and>
   kelly_criterion (6 / 10) (-1) = Inr 0 \<and>
   kelly_fraction (6 / 10) 0 = Inr 0 \<and> kelly_criterion (6 / 10) 0 = Inr 0"
  using kelly_functions_total [of "6 / 10" "-1"] kelly_functions_total [of "6 / 10" 0]
  by simp

lemma size_f64_unfolded:
  "size_f64 cfg s bankroll_usd =
     (if size_market_price_f64 s \<le> 0 \<or> 1 \<le> size_market_price_f64 s
      then Inr \<lparr>optimal_fraction = 0, position_size_usd = 0, net_ev = 0, should_trade = False\<rparr>
      else
        (let net_b = fmul64 (fsub64 (rd (1 / size_market_price_f64 s)) 1)
                            (fsub64 1 (kalshi_fee_rate cfg));
             f_star = (if net_b \<le> 0 then 0
                       else rd (fsub64 (fmul64 (size_p_f64 s) (fadd64 net_b 1)) 1 / net_b));
             position_usd = min (fmul64 (max 0 (fmul64 f_star (cfg_kelly_fraction cfg)))
                                        bankroll_usd)
                                (max_position_usd cfg);
             ev = fsub64 (fmul64 (size_p_f64 s) net_b) (fsub64 1 (size_p_f64 s))
         in Inr \<lparr>optimal_fraction = f_star,
                  position_size_usd = round_f64 position_usd 2,
                  net_ev = round_f64 ev 4,
                  should_trade = (kelly_edge_min cfg < f_star \<and> 0 < ev \<and> 0 < position_usd)\<rparr>))"
  by (simp add: size_f64_def Let_def fdiv64_def kelly_fraction_f64_def
      net_payout_after_fees_f64_def)

lemmas size_f64_eval = size_f64_def size_p_f64_def size_market_price_f64_def
  net_payout_after_fees_f64_def kelly_fraction_f64_def size_as_specified_f64_def
  quot64_def cfg_even_f64_def sig_even_f64_def Let_def

lemma size_f64_even:
  "size_f64 cfg_even_f64 sig_even_f64 1000 =
     Inr \<lparr>optimal_fraction = 900719925474099 / 4503599627370496,
          position_size_usd = 200,
          net_ev = 3602879701896397 / 18014398509481984,
          should_trade = True\<rparr>"
  by (simp add: size_f64_eval f64_ops)

lemma size_f64_fee:
  "size_f64 (cfg_even_f64\<lparr>kalshi_fee_rate := rd (7 / 100)\<rparr>) sig_even_f64 1000 =
     Inr \<lparr>optimal_fraction = 1530255357257071 / 9007199254740992,
          position_size_usd = 1494368243542917 / 8796093022208,
          net_ev = 5692549928996307 / 36028797018963968,
          should_trade = True\<rparr>"
  by (simp add: size_f64_eval f64_ops)

text \<open>
  At an implied probability of 0.5 and a fair one of 0.525 the exact Kelly fraction is
  the gate 0.05 itself; the doubles give 0.050000000000000044 against a gate of
  0.05000000000000000277, and the signal is traded.
\<close>

lemma size_f64_gate_edge:
  "size_f64 cfg_even_f64 (sig_even_f64\<lparr>estimated_fair_prob := rd (525 / 1000)\<rparr>) 1000 =
     Inr \<lparr>optimal_fraction = 225179981368525 / 4503599627370496,
          position_size_usd = 50,
          net_ev = 3602879701896397 / 72057594037927936,
          should_trade = True\<rparr>"
  by (simp add: size_f64_eval f64_ops)

text \<open>
  C1, as stated, fails. \<open>size\<close> returns the position rounded to cents and the expected
  value rounded to four decimals: with a fee of 7% in the even-money scenario the
  position of the formula is 169.8924731182795, and the code returns 169.89. In the
  scenario of the claim itself the Kelly fraction is the double 0.19999999999999996
  (900719925474099 / 2^52), not the double 0.2. The Kelly quotient is also replaced by 0
  when \<open>net_b \<le> 0\<close> (a fee rate of 1 or more), where the formula of the claim gives 1 for
  a fee rate of 2.
\<close>

theorem size_returns_rounded_counterexample:
  "size_f64 (cfg_even_f64\<lparr>kalshi_fee_rate := rd (7 / 100)\<rparr>) sig_even_f64 1000 =
     Inr \<lparr>optimal_fraction = 1530255357257071 / 9007199254740992,
          position_size_usd = rd (16989 / 100), net_ev = rd (158 / 1000),
          should_trade = True\<rparr> \<and>
   size_as_specified_f64 (cfg_even_f64\<lparr>kalshi_fee_rate := rd (7 / 100)\<rparr>) sig_even_f64 1000 =
     \<lparr>optimal_fraction = 1530255357257071 / 9007199254740992,
      position_size_usd = 2988779994642717 / 17592186044416,
      net_ev = 355784370562269 / 2251799813685248, should_trade = True\<rparr> \<and>
   rd (16989 / 100) \<noteq> 2988779994642717 / 17592186044416 \<and>
   size_f64 cfg_even_f64 sig_even_f64 1000 =
     Inr \<lparr>optimal_fraction = 900719925474099 / 4503599627370496, position_size_usd = 200,
          net_ev = rd (2 / 10), should_trade = True\<rparr> \<and>
   900719925474099 / 4503599627370496 \<noteq> rd (2 / 10) \<and>
   size_f64 (cfg_even_f64\<lparr>kalshi_fee_rate := 2\<rparr>) sig_even_f64 1000 =
     Inr \<lparr>optimal_fraction = 0, position_size_usd = 0, net_ev = - 1, should_trade = False\<rparr> \<and>
   optimal_fraction
     (size_as_specified_f64 (cfg_even_f64\<lparr>kalshi_fee_rate := 2\<rparr>) sig_even_f64 1000) = 1"
proof -
  have spec_fee:
    "size_as_specified_f64 (cfg_even_f64\<lparr>kalshi_fee_rate := rd (7 / 100)\<rparr>) sig_even_f64 1000 =
     \<lparr>optimal_fraction = 1530255357257071 / 9007199254740992,
      position_size_usd = 2988779994642717 / 17592186044416,
      net_ev = 355784370562269 / 2251799813685248, should_trade = True\<rparr>"
    by (simp add: size_f64_eval f64_ops)
  have guard:
    "size_f64 (cfg_even_f64\<lparr>kalshi_fee_rate := 2\<rparr>) sig_even_f64 1000 =
     Inr \<lparr>optimal_fraction = 0, position_size_usd = 0, net_ev = - 1, should_trade = False\<rparr>"
    by (simp add: size_f64_eval f64_ops)
  have spec_guard:
    "optimal_fraction
       (size_as_specified_f64 (cfg_even_f64\<lparr>kalshi_fee_rate := 2\<rparr>) sig_even_f64 1000) = 1"
    by (simp add: size_f64_eval f64_ops)
  from size_f64_fee size_f64_even spec_fee guard spec_guard show ?thesis
    by (simp add: f64_ops)
qed

text \<open>
  C1, amended. For every configuration, signal and bankroll, \<open>size\<close> takes \<open>p\<close> and
  \<open>market_price\<close> from the side of the signal, rejects when \<open>market_price\<close> is outside the
  open interval (0,1), and otherwise returns, every operation being a double operation,
  \<open>f*\<close> = (p(net_b+1) - 1)/net_b with net_b = (1/market_price - 1)(1 - fee_rate) (0 when
  \<open>net_b \<le> 0\<close>), the position min(max(0, f* kelly_fraction) bankroll, max_position_usd)
  rounded to 2 decimals, the expected value p net_b - (1 - p) rounded to 4 decimals, and
  \<open>should_trade\<close> decided on the unrounded values. It never raises. In the even-money
  scenario the result is gross_b = 1.0, f* = 0.19999999999999996, position 200.0,
  net EV 0.2, trade.
\<close>

theorem size_rounded_in_binary64:
  "size_p_f64 s =
     (if side s = YES then estimated_fair_prob s else fsub64 1 (estimated_fair_prob s)) \<and>
   size_market_price_f64 s =
     (if side s = YES then implied_prob s else fsub64 1 (implied_prob s)) \<and>
   size_f64 cfg s bankroll_usd =
     (if size_market_price_f64 s \<le> 0 \<or> 1 \<le> size_market_price_f64 s
      then Inr \<lparr>optimal_fraction = 0, position_size_usd = 0, net_ev = 0, should_trade = False\<rparr>
      else
        (let net_b = fmul64 (fsub64 (rd (1 / size_market_price_f64 s)) 1)
                            (fsub64 1 (kalshi_fee_rate cfg));
             f_star = (if net_b \<le> 0 then 0
                       else rd (fsub64 (fmul64 (size_p_f64 s) (fadd64 net_b 1)) 1 / net_b));
             position_usd = min (fmul64 (max 0 (fmul64 f_star (cfg_kelly_fraction cfg)))
                                        bankroll_usd)
                                (max_position_usd cfg);
             ev = fsub64 (fmul64 (size_p_f64 s) net_b) (fsub64 1 (size_p_f64 s))
         in Inr \<lparr>optimal_fraction = f_star,
                  position_size_usd = round_f64 position_usd 2,
                  net_ev = round_f64 ev 4,
                  should_trade = (kelly_edge_min cfg < f_star \<and> 0 < ev \<and> 0 < position_usd)\<rparr>)) \<and>
   fsub64 (rd (1 / implied_prob sig_even_f64)) 1 = 1 \<and>
   size_f64 cfg_even_f64 sig_even_f64 1000 =
     Inr \<lparr>optimal_fraction = 900719925474099 / 4503599627370496, position_size_usd = 200,
          net_ev = rd (2 / 10), should_trade = True\<rparr>"
proof -
  have "fdiv64 1 (implied_prob sig_even_f64) = Inr 2"
    by (simp add: sig_even_f64_def f64_ops)
  then have "rd (1 / implied_prob sig_even_f64) = 2"
    by (simp add: fdiv64_def sig_even_f64_def)
  then have gross: "fsub64 (rd (1 / implied_prob sig_even_f64)) 1 = 1"
    by (simp add: f64_ops)
  have scenario: "size_f64 cfg_even_f64 sig_even_f64 1000 =
     Inr \<lparr>optimal_fraction = 900719925474099 / 4503599627370496, position_size_usd = 200,
          net_ev = rd (2 / 10), should_trade = True\<rparr>"
    using size_f64_even by (simp add: f64_ops)
  from gross scenario size_f64_unfolded [of cfg s bankroll_usd] show ?thesis
    by (simp add: size_p_f64_def size_market_price_f64_def)
qed

section \<open>Order construction\<close>

lemma order_price_cents_f64_bounds:
  "1 \<le> order_price_cents_f64 s \<and> order_price_cents_f64 s \<le> 99"
  by (simp add: order_price_cents_f64_def Let_def)

text \<open>The bounds of the order do not depend on the reading of the arithmetic.\<close>

lemma build_order_f64_bounds:
  assumes "build_order_f64 cfg s k now = Inr (Some order)"
  shows "1 \<le> limit_price_cents order \<and> limit_price_cents order \<le> 99 \<and> 1 \<le> contracts order"
proof -
  have nz: "(of_int (order_price_cents_f64 s) :: real) \<noteq> 0"
    using order_price_cents_f64_bounds [of s] by simp
  from assms nz have "limit_price_cents order = order_price_cents_f64 s \<and> 1 \<le> contracts order"
    by (auto simp: build_order_f64_def Let_def fdiv64_def split: if_splits)
  with order_price_cents_f64_bounds [of s] show ?thesis by simp
qed

text \<open>
  The whole-cent prices that \<open>int(implied_prob * 100)\<close> does not give back: the double
  29/100 times 100 is 28.999999999999996, and likewise for 57 and 58.
\<close>

lemma int_misses_the_cent:
  "py_int (fmul64 (rd (29 / 100)) 100) = 28 \<and> py_int (fmul64 (rd (57 / 100)) 100) = 56 \<and>
   py_int (fmul64 (rd (58 / 100)) 100) = 57"
  by (simp add: f64_ops py_int_def)

text \<open>
  C4, evaluated on the code. For the signal at 29 cents and a position of 100 USD,
  \<open>build_order\<close> sets a price of 28 cents and 357 contracts, where rounding
  \<open>implied_prob * 100\<close> gives 29 cents and 344 contracts; on the NO side it sets 72 cents
  and 138 contracts instead of 71 cents and 140 contracts. \<open>int\<close> truncates the double
  product 28.999999999999996.
\<close>

theorem build_order_misses_the_cent:
  "build_order_f64 cfg_even_f64 sig_29 kelly_100 ''t1'' =
     Inr (Some \<lparr>order_ticker = ''TEST-TICKER'', order_side = YES, contracts = 357,
                 limit_price_cents = 28, order_signal = sig_29, order_kelly = kelly_100,
                 paper = True, order_id = None, fill_price_cents = None,
                 order_timestamp = ''t1''\<rparr>) \<and>
   price_as_specified_f64 sig_29 = 29 \<and>
   contracts_as_specified_f64 sig_29 kelly_100 = 344 \<and>
   build_order_f64 cfg_even_f64 (sig_29\<lparr>side := NO\<rparr>) kelly_100 ''t1'' =
     Inr (Some \<lparr>order_ticker = ''TEST-TICKER'', order_side = NO, contracts = 138,
                 limit_price_cents = 72, order_signal = sig_29\<lparr>side := NO\<rparr>,
                 order_kelly = kelly_100, paper = True, order_id = None,
                 fill_price_cents = None, order_timestamp = ''t1''\<rparr>) \<and>
   price_as_specified_f64 (sig_29\<lparr>side := NO\<rparr>) = 71 \<and>
   contracts_as_specified_f64 (sig_29\<lparr>side := NO\<rparr>) kelly_100 = 140"
proof -
  have p_yes: "order_price_cents_f64 sig_29 = 28"
    by (simp add: order_price_cents_f64_def sig_29_def py_int_def f64_ops Let_def)
  have p_no: "order_price_cents_f64 (sig_29\<lparr>side := NO\<rparr>) = 72"
    by (simp add: order_price_cents_f64_def sig_29_def py_int_def f64_ops Let_def)
  have s_yes: "price_as_specified_f64 sig_29 = 29"
    by (simp add: price_as_specified_f64_def sig_29_def py_round_def f64_ops Let_def)
  have s_no: "price_as_specified_f64 (sig_29\<lparr>side := NO\<rparr>) = 71"
    by (simp add: price_as_specified_f64_def sig_29_def py_round_def f64_ops Let_def)
  have fields: "ticker sig_29 = ''TEST-TICKER''" "side sig_29 = YES"
    by (simp_all add: sig_29_def)
  have c_yes: "contracts_as_specified_f64 sig_29 kelly_100 = 344"
    by (simp add: contracts_as_specified_f64_def quot64_def s_yes kelly_100_def f64_ops)
  have c_no: "contracts_as_specified_f64 (sig_29\<lparr>side := NO\<rparr>) kelly_100 = 140"
    by (simp add: contracts_as_specified_f64_def quot64_def s_no kelly_100_def f64_ops)
  have b_yes: "build_order_f64 cfg_even_f64 sig_29 kelly_100 ''t1'' =
     Inr (Some \<lparr>order_ticker = ''TEST-TICKER'', order_side = YES, contracts = 357,
                 limit_price_cents = 28, order_signal = sig_29, order_kelly = kelly_100,
                 paper = True, order_id = None, fill_price_cents = None,
                 order_timestamp = ''t1''\<rparr>)"
    by (simp add: build_order_f64_def p_yes fields kelly_100_def f64_ops py_int_def
        cfg_even_f64_def Let_def)
  have b_no: "build_order_f64 cfg_even_f64 (sig_29\<lparr>side := NO\<rparr>) kelly_100 ''t1'' =
     Inr (Some \<lparr>order_ticker = ''TEST-TICKER'', order_side = NO, contracts = 138,
                 limit_price_cents = 72, order_signal = sig_29\<lparr>side := NO\<rparr>,
                 order_kelly = kelly_100, paper = True, order_id = None,
                 fill_price_cents = None, order_timestamp = ''t1''\<rparr>)"
    by (simp add: build_order_f64_def p_no fields kelly_100_def f64_ops py_int_def
        cfg_even_f64_def Let_def)
  from b_yes s_yes c_yes b_no s_no c_no show ?thesis by simp
qed

text \<open>
  C8. Every order that \<open>build_order\<close> produces has a limit price between 1 and 99 cents
  and at least one contract.
\<close>

theorem trade_order_bounds:
  assumes "build_order cfg s k now = Inr (Some order)"
  shows "1 \<le> limit_price_cents order \<and> limit_price_cents order \<le> 99 \<and> 1 \<le> contracts order"
proof (cases "should_trade k")
  case True
  from build_order_trade [OF True, of cfg s now] assms
  have "order = \<lparr>order_ticker = ticker s, order_side = side s,
                 contracts = max 1 \<lfloor>position_size_usd k * 100 / of_int (order_price_cents s)\<rfloor>,
                 limit_price_cents = order_price_cents s,
                 order_signal = s, order_kelly = k, paper = paper_trading cfg,
                 order_id = None, fill_price_cents = None, order_timestamp = now\<rparr>"
    by simp
  then show ?thesis using order_price_cents_bounds [of s] by simp
next
  case False
  with assms show ?thesis by (simp add: build_order_skip)
qed

theorem trade_order_bounds_witness:
  "build_order cfg_even sig_even kelly_even ''t1'' = Inr (Some order_even) \<and>
   1 \<le> limit_price_cents order_even \<and> limit_price_cents order_even \<le> 99 \<and>
   1 \<le> contracts order_even"
  using trade_order_bounds [OF build_order_even] build_order_even by simp

section \<open>Execution\<close>

lemma paper_execute_result:
  "paper_execute order w =
     (order\<lparr>fill_price_cents := Some (limit_price_cents order)\<rparr>,
      w\<lparr>journal := journal w @
         [\<lparr>jr_timestamp = order_timestamp order, jr_ticker = order_ticker order,
           jr_side = side_value (order_side order), jr_contracts = contracts order,
           jr_limit_price_cents = limit_price_cents order,
           jr_fill_price_cents = Some (limit_price_cents order),
           jr_kelly_f_star = round_ndigits (optimal_fraction (order_kelly order)) 4,
           jr_position_usd = position_size_usd (order_kelly order),
           jr_net_ev = net_ev (order_kelly order),
           jr_source = source_value (source (order_signal order)),
           jr_rationale = rationale (order_signal order), jr_paper = True\<rparr>]\<rparr>)"
  by (simp add: paper_execute_def Let_def)

text \<open>
  C7. For every order with \<open>paper = true\<close>, \<open>execute\<close> sends no POST to the orders
  endpoint, sets \<open>fill_price_cents\<close> to \<open>limit_price_cents\<close> and changes nothing else of
  the order, and appends exactly one line to the journal, the lines already there
  staying as they are.
\<close>

theorem paper_mode_isolation:
  assumes "paper order"
  shows "posts (snd (execute exchange order w)) = posts w \<and>
         fst (execute exchange order w) =
           order\<lparr>fill_price_cents := Some (limit_price_cents order)\<rparr> \<and>
         (\<exists>line. journal (snd (execute exchange order w)) = journal w @ [line] \<and>
                 jr_paper line \<and> jr_ticker line = order_ticker order \<and>
                 jr_limit_price_cents line = limit_price_cents order \<and>
                 jr_fill_price_cents line = Some (limit_price_cents order)) \<and>
         length (journal (snd (execute exchange order w))) = Suc (length (journal w))"
  using assms by (simp add: execute_def paper_execute_result)

theorem paper_mode_isolation_witness:
  "paper order_even \<and>
   execute exchange_ok order_even world_0 =
     (order_even\<lparr>fill_price_cents := Some 50\<rparr>, \<lparr>journal = [line_even], posts = []\<rparr>)"
proof -
  have p: "paper order_even" by (simp add: order_even_def)
  have r: "round_ndigits (2 / 10) 4 = 2 / 10"
    by (simp add: round_ndigits_def py_round_def Let_def)
  have "execute exchange_ok order_even world_0 =
     (order_even\<lparr>fill_price_cents := Some 50\<rparr>, \<lparr>journal = [line_even], posts = []\<rparr>)"
    using r by (simp add: execute_def paper_execute_result order_even_def world_0_def line_even_def
        sig_even_def kelly_even_def)
  with p paper_mode_isolation [OF p, of exchange_ok world_0] show ?thesis by simp
qed

text \<open>A live order, for comparison, is posted once and leaves the journal alone.\<close>

lemma live_execute_posts_once:
  "\<not> paper order \<Longrightarrow>
   length (posts (snd (execute exchange order w))) = Suc (length (posts w)) \<and>
   journal (snd (execute exchange order w)) = journal w"
  by (simp add: execute_def live_execute_def Let_def split: sum.splits)

lemma build_order_paper_flag:
  "build_order cfg s k now = Inr (Some order) \<Longrightarrow> paper order = paper_trading cfg"
  by (auto simp: build_order_def Let_def split: if_splits sum.splits)

text \<open>In paper mode a whole batch sends no POST.\<close>

lemma process_signals_paper_no_post:
  "paper_trading cfg \<Longrightarrow>
   posts (snd (process_signals exchange cfg clock sigs bankroll_usd w)) = posts w"
proof (induction sigs arbitrary: w)
  case Nil
  then show ?case by simp
next
  case (Cons sg sigs)
  show ?case
  proof (cases "size_signal cfg sg bankroll_usd")
    case (Inl e)
    then show ?thesis by simp
  next
    case (Inr kelly)
    show ?thesis
    proof (cases "build_order cfg sg kelly (clock sg)")
      case (Inl e)
      with Inr show ?thesis by simp
    next
      case inr: (Inr found)
      show ?thesis
      proof (cases found)
        case None
        with Inr inr Cons show ?thesis by simp
      next
        case (Some order)
        with inr have bo: "build_order cfg sg kelly (clock sg) = Inr (Some order)" by simp
        from build_order_paper_flag [OF bo] Cons.prems have pp: "paper order" by simp
        obtain order1 w1 where ex: "execute exchange order w = (order1, w1)"
          by (cases "execute exchange order w")
        from pp ex have w1: "posts w1 = posts w"
          by (auto simp: execute_def paper_execute_result)
        from Cons.IH [OF Cons.prems, of w1] w1
        have "posts (snd (process_signals exchange cfg clock sigs bankroll_usd w1)) = posts w"
          by simp
        with Inr bo ex show ?thesis
          by (auto split: prod.splits sum.splits)
      qed
    qed
  qed
qed

section \<open>The orchestrator cycle\<close>

text \<open>
  \<open>run_cycle\<close> awaits the producers with \<open>return_exceptions=False\<close>: an exception of
  any producer leaves the cycle at once, before any signal is sized.
\<close>

lemma run_cycle_raises:
  "first_exception [ob_task, nlp_task, arb_task] = Some e \<Longrightarrow>
   run_cycle exchange cfg clock ob_task nlp_task arb_task bankroll_usd w = (Inl e, w)"
  by (simp add: run_cycle_def gather_def)

lemma process_even:
  "process_signals exchange_ok cfg_even clock_1 [sig_even] 1000 world_0 =
     (Inr [order_even\<lparr>fill_price_cents := Some 50\<rparr>], \<lparr>journal = [line_even], posts = []\<rparr>)"
proof -
  have r: "round_ndigits (2 / 10) 4 = 2 / 10"
    by (simp add: round_ndigits_def py_round_def Let_def)
  have e: "execute exchange_ok order_even world_0 =
     (order_even\<lparr>fill_price_cents := Some 50\<rparr>, \<lparr>journal = [line_even], posts = []\<rparr>)"
    using r by (simp add: execute_def paper_execute_result order_even_def world_0_def line_even_def
        sig_even_def kelly_even_def)
  show ?thesis
    using e by (simp add: size_signal_even build_order_even clock_1_def)
qed

text \<open>
  C3, evaluated on the code. The orderbook producer returns the even-money signal, the
  news producer nothing, and the arbitrage producer raises: the cycle raises the same
  exception and writes nothing, although the same cycle with an empty arbitrage result
  journals one paper trade. Producer isolation, which the \<open>isinstance\<close> tests after
  the \<open>gather\<close> prepare for, does not happen.
\<close>

theorem run_cycle_not_isolated:
  "run_cycle exchange_ok cfg_even clock_1 (Inr [sig_even]) (Inr []) (Inl TransportError)
     1000 world_0 = (Inl TransportError, world_0) \<and>
   run_cycle exchange_ok cfg_even clock_1 (Inr [sig_even]) (Inr []) (Inr [])
     1000 world_0 = (Inr (), \<lparr>journal = [line_even], posts = []\<rparr>)"
  using process_even by (simp add: run_cycle_def gather_def)

section \<open>Orderbook scanner\<close>

lemma parse_orderbook_void:
  "parse_orderbook tk book_void now =
     Inr (Some \<lparr>snap_ticker = tk, best_yes_bid = 40, best_no_bid = 55,
                 synthetic_yes_ask = 45, spread_cents = 5, snap_timestamp = now\<rparr>)"
  by (simp add: parse_orderbook_def book_void_def Let_def)

lemma scan_market_skip:
  "parse_orderbook tk raw now = Inr (Some snap) \<Longrightarrow>
   spread_cents snap \<le> spread_threshold_cents cfg \<Longrightarrow>
   scan_market cfg tk (Inr raw) now = Inr None"
  by (simp add: scan_market_def)

lemma parse_orderbook_fields:
  "parse_orderbook tk raw now = Inr (Some snap) \<Longrightarrow>
   synthetic_yes_ask snap = (if 0 < best_no_bid snap then 100 - best_no_bid snap else 100) \<and>
   spread_cents snap = synthetic_yes_ask snap - best_yes_bid snap"
  by (auto simp: parse_orderbook_def Let_def split: if_splits sum.splits)

lemma scan_market_emit:
  "parse_orderbook tk raw now = Inr (Some snap) \<Longrightarrow>
   spread_threshold_cents cfg < spread_cents snap \<Longrightarrow>
   scan_market cfg tk (Inr raw) now =
     Inr (Some \<lparr>source = ORDERBOOK, ticker = tk, side = YES,
                 implied_prob = (if best_yes_bid snap \<noteq> 0
                                 then of_int (best_yes_bid snap) / 100 else 1 / 2),
                 estimated_fair_prob =
                   of_int (best_yes_bid snap + synthetic_yes_ask snap) / 200,
                 edge = of_int (best_yes_bid snap + synthetic_yes_ask snap) / 200 -
                        (if best_yes_bid snap \<noteq> 0
                         then of_int (best_yes_bid snap) / 100 else 1 / 2),
                 confidence = min (of_int (spread_cents snap) / 10) 1,
                 rationale = LiquidityVoid (spread_cents snap) (best_yes_bid snap)
                               (synthetic_yes_ask snap) (best_yes_bid snap + 1),
                 timestamp = now\<rparr>)"
  by (simp add: scan_market_def Let_def)

text \<open>
  C5. The orderbook with YES bids [[40,100]] and NO bids [[55,80]] parses to the snapshot
  best_yes_bid = 40, best_no_bid = 55, synthetic_yes_ask = 45, spread_cents = 5, and at
  threshold 3 the scanner emits a YES signal with implied probability 0.40, fair
  probability 0.425 and confidence 0.5. In general a snapshot whose spread exceeds the
  threshold yields a YES signal whose fair probability is the midpoint
  (best_yes_bid + synthetic_yes_ask)/200 and whose confidence is min(spread_cents/10, 1),
  and a snapshot whose spread is at most the threshold yields no signal.
\<close>

theorem orderbook_void_detection:
  "parse_orderbook tk book_void now =
     Inr (Some \<lparr>snap_ticker = tk, best_yes_bid = 40, best_no_bid = 55,
                 synthetic_yes_ask = 45, spread_cents = 5, snap_timestamp = now\<rparr>) \<and>
   scan_market (cfg\<lparr>spread_threshold_cents := 3\<rparr>) tk (Inr book_void) now =
     Inr (Some \<lparr>source = ORDERBOOK, ticker = tk, side = YES, implied_prob = 40 / 100,
                 estimated_fair_prob = 425 / 1000, edge = 25 / 1000, confidence = 5 / 10,
                 rationale = LiquidityVoid 5 40 45 41, timestamp = now\<rparr>) \<and>
   (parse_orderbook tk raw now = Inr (Some snap) \<and>
    spread_threshold_cents cfg' < spread_cents snap \<longrightarrow>
    (\<exists>sg. scan_market cfg' tk (Inr raw) now = Inr (Some sg) \<and> side sg = YES \<and>
          estimated_fair_prob sg =
            of_int (best_yes_bid snap + synthetic_yes_ask snap) / 200 \<and>
          confidence sg = min (of_int (spread_cents snap) / 10) 1)) \<and>
   (parse_orderbook tk raw now = Inr (Some snap) \<and>
    spread_cents snap \<le> spread_threshold_cents cfg' \<longrightarrow>
    scan_market cfg' tk (Inr raw) now = Inr None)"
proof -
  have skip: "parse_orderbook tk raw now = Inr (Some snap) \<and>
      spread_cents snap \<le> spread_threshold_cents cfg' \<longrightarrow>
      scan_market cfg' tk (Inr raw) now = Inr None"
    using scan_market_skip by blast
  have emit: "parse_orderbook tk raw now = Inr (Some snap) \<and>
      spread_threshold_cents cfg' < spread_cents snap \<longrightarrow>
      (\<exists>sg. scan_market cfg' tk (Inr raw) now = Inr (Some sg) \<and> side sg = YES \<and>
          estimated_fair_prob sg =
            of_int (best_yes_bid snap + synthetic_yes_ask snap) / 200 \<and>
          confidence sg = min (of_int (spread_cents snap) / 10) 1)"
    using scan_market_emit [of tk raw now snap cfg'] by simp
  have void: "scan_market (cfg\<lparr>spread_threshold_cents := 3\<rparr>) tk (Inr book_void) now =
     Inr (Some \<lparr>source = ORDERBOOK, ticker = tk, side = YES, implied_prob = 40 / 100,
                 estimated_fair_prob = 425 / 1000, edge = 25 / 1000, confidence = 5 / 10,
                 rationale = LiquidityVoid 5 40 45 41, timestamp = now\<rparr>)"
    by (simp add: parse_orderbook_void scan_market_def Let_def)
  from skip emit void parse_orderbook_void [of tk now] show ?thesis by blast
qed

theorem orderbook_void_detection_witness:
  "parse_orderbook ''KXTEST'' book_tight ''t0'' =
     Inr (Some \<lparr>snap_ticker = ''KXTEST'', best_yes_bid = 45, best_no_bid = 55,
                 synthetic_yes_ask = 45, spread_cents = 0, snap_timestamp = ''t0''\<rparr>) \<and>
   (0 :: int) \<le> spread_threshold_cents cfg_default \<and>
   scan_market cfg_default ''KXTEST'' (Inr book_tight) ''t0'' = Inr None \<and>
   parse_orderbook ''KXTEST'' book_void ''t0'' =
     Inr (Some \<lparr>snap_ticker = ''KXTEST'', best_yes_bid = 40, best_no_bid = 55,
                 synthetic_yes_ask = 45, spread_cents = 5, snap_timestamp = ''t0''\<rparr>) \<and>
   spread_threshold_cents cfg_default < 5 \<and>
   (\<exists>sg. scan_market cfg_default ''KXTEST'' (Inr book_void) ''t0'' = Inr (Some sg) \<and>
         side sg = YES \<and> estimated_fair_prob sg = 425 / 1000 \<and> confidence sg = 1 / 2)"
proof -
  have p: "parse_orderbook ''KXTEST'' book_tight ''t0'' =
     Inr (Some \<lparr>snap_ticker = ''KXTEST'', best_yes_bid = 45, best_no_bid = 55,
                 synthetic_yes_ask = 45, spread_cents = 0, snap_timestamp = ''t0''\<rparr>)"
    by (simp add: parse_orderbook_def book_tight_def Let_def)
  have t: "(0 :: int) \<le> spread_threshold_cents cfg_default"
    by (simp add: cfg_default_def)
  have t5: "spread_threshold_cents cfg_default < 5"
    by (simp add: cfg_default_def)
  from orderbook_void_detection
         [where tk = "''KXTEST''" and now = "''t0''" and raw = book_tight and cfg' = cfg_default
            and snap = "\<lparr>snap_ticker = ''KXTEST'', best_yes_bid = 45, best_no_bid = 55,
                 synthetic_yes_ask = 45, spread_cents = 0, snap_timestamp = ''t0''\<rparr>"]
       p t
  have tight: "scan_market cfg_default ''KXTEST'' (Inr book_tight) ''t0'' = Inr None"
    by simp
  from orderbook_void_detection
         [where tk = "''KXTEST''" and now = "''t0''" and raw = book_void and cfg' = cfg_default
            and snap = "\<lparr>snap_ticker = ''KXTEST'', best_yes_bid = 40, best_no_bid = 55,
                 synthetic_yes_ask = 45, spread_cents = 5, snap_timestamp = ''t0''\<rparr>"]
       t5
  have void: "parse_orderbook ''KXTEST'' book_void ''t0'' =
     Inr (Some \<lparr>snap_ticker = ''KXTEST'', best_yes_bid = 40, best_no_bid = 55,
                 synthetic_yes_ask = 45, spread_cents = 5, snap_timestamp = ''t0''\<rparr>) \<and>
   (\<exists>sg. scan_market cfg_default ''KXTEST'' (Inr book_void) ''t0'' = Inr (Some sg) \<and>
         side sg = YES \<and> estimated_fair_prob sg = 425 / 1000 \<and> confidence sg = 1 / 2)"
    by simp
  from p t t5 tight void show ?thesis by simp
qed

section \<open>The signal invariant\<close>

lemma arb_no_signal_60_30:
  "arb_signal cfg_default ''t0'' ''KXTEST'' (60 / 100) (3 / 10) =
     Inr (Some \<lparr>source = ARBITRAGE, ticker = ''KXTEST'', side = NO, implied_prob = 6 / 10,
                 estimated_fair_prob = 7 / 10, edge = 3 / 10, confidence = 1 / 2,
                 rationale = CrossPlatformArb (6 / 10) (3 / 10) (1 / 2), timestamp = ''t0''\<rparr>)"
  by (simp add: arb_signal_def arb_emit_def kelly_criterion_def fdiv_def cfg_default_def Let_def)

text \<open>
  C2, evaluated on the code. For the pair with the exchange at 60 cents and the external
  venue at 0.30 the arbitrage scanner emits a NO signal with implied probability 0.6,
  fair probability 1 - 0.3 = 0.7 and edge 0.3: the fair probability is above the implied
  one on a NO signal, and the edge is not their distance 0.1. For the orderbook with no
  YES bid and a best NO bid of 60 the orderbook scanner emits a YES signal with implied
  probability 0.5 (the default), fair probability 0.2 and edge -0.3.
\<close>

theorem signal_invariant_violated:
  "scan_pair cfg_default no_float ''t0'' ''KXTEST'' km_60 em_30 =
     Inr (Some \<lparr>source = ARBITRAGE, ticker = ''KXTEST'', side = NO, implied_prob = 6 / 10,
                 estimated_fair_prob = 7 / 10, edge = 3 / 10, confidence = 1 / 2,
                 rationale = CrossPlatformArb (6 / 10) (3 / 10) (1 / 2), timestamp = ''t0''\<rparr>) \<and>
   \<not> signal_invariant
       \<lparr>source = ARBITRAGE, ticker = ''KXTEST'', side = NO, implied_prob = 6 / 10,
        estimated_fair_prob = 7 / 10, edge = 3 / 10, confidence = 1 / 2,
        rationale = CrossPlatformArb (6 / 10) (3 / 10) (1 / 2), timestamp = ''t0''\<rparr> \<and>
   scan_market cfg_default ''KXTEST'' (Inr book_no_yes) ''t0'' =
     Inr (Some \<lparr>source = ORDERBOOK, ticker = ''KXTEST'', side = YES, implied_prob = 1 / 2,
                 estimated_fair_prob = 2 / 10, edge = - (3 / 10), confidence = 1,
                 rationale = LiquidityVoid 40 0 40 1, timestamp = ''t0''\<rparr>) \<and>
   \<not> signal_invariant
       \<lparr>source = ORDERBOOK, ticker = ''KXTEST'', side = YES, implied_prob = 1 / 2,
        estimated_fair_prob = 2 / 10, edge = - (3 / 10), confidence = 1,
        rationale = LiquidityVoid 40 0 40 1, timestamp = ''t0''\<rparr>"
proof -
  have a: "scan_pair cfg_default no_float ''t0'' ''KXTEST'' km_60 em_30 =
             arb_signal cfg_default ''t0'' ''KXTEST'' (60 / 100) (3 / 10)"
    by (simp add: scan_pair_def km_60_def em_30_def dict_get_def py_or_def)
  have b: "scan_market cfg_default ''KXTEST'' (Inr book_no_yes) ''t0'' =
     Inr (Some \<lparr>source = ORDERBOOK, ticker = ''KXTEST'', side = YES, implied_prob = 1 / 2,
                 estimated_fair_prob = 2 / 10, edge = - (3 / 10), confidence = 1,
                 rationale = LiquidityVoid 40 0 40 1, timestamp = ''t0''\<rparr>)"
    by (simp add: scan_market_def parse_orderbook_def book_no_yes_def cfg_default_def Let_def)
  show ?thesis
    using a b arb_no_signal_60_30 by (simp add: signal_invariant_def)
qed

text \<open>
  Where the invariant does hold: every signal of the news analyzer, every YES signal of
  the arbitrage scanner, and every orderbook signal of a book with a YES bid under a
  threshold that is not negative.
\<close>

lemma nlp_signals_invariant:
  "s \<in> set (signals_of_raw cfg resolve now feed_name raw) \<Longrightarrow> signal_invariant s"
  by (auto simp: signals_of_raw_def signal_invariant_def Let_def split: if_splits)

lemma arb_yes_signals_invariant:
  "arb_signal cfg now tk kalshi_prob ext_prob = Inr (Some s) \<Longrightarrow> side s = YES \<Longrightarrow>
   signal_invariant s"
  by (auto simp: arb_signal_def arb_emit_def signal_invariant_def Let_def
      split: if_splits sum.splits)

lemma orderbook_signals_invariant:
  assumes "scan_market cfg tk (Inr raw) now = Inr (Some s)"
    and "parse_orderbook tk raw now = Inr (Some snap)"
    and "best_yes_bid snap \<noteq> 0" and "0 \<le> spread_threshold_cents cfg"
  shows "signal_invariant s"
proof -
  from assms(2) have sp: "spread_cents snap = synthetic_yes_ask snap - best_yes_bid snap"
    using parse_orderbook_fields by blast
  from assms(1,2) have wide: "spread_threshold_cents cfg < spread_cents snap"
    by (auto simp: scan_market_def split: if_splits)
  with sp assms(4) have lt: "best_yes_bid snap < synthetic_yes_ask snap" by simp
  from assms(1,2,3) wide have s: "side s = YES \<and>
      implied_prob s = of_int (best_yes_bid snap) / 100 \<and>
      estimated_fair_prob s = of_int (best_yes_bid snap + synthetic_yes_ask snap) / 2 / 100 \<and>
      edge s = estimated_fair_prob s - implied_prob s"
    by (auto simp: scan_market_def Let_def split: if_splits)
  from lt have "(of_int (best_yes_bid snap) :: real) < of_int (synthetic_yes_ask snap)"
    by simp
  with s show ?thesis by (simp add: signal_invariant_def field_simps)
qed

text \<open>
  What the broken convention costs: the risk agent reads the fair probability of a signal
  as a YES probability, so it sizes the NO signal above with a winning probability of 0.3
  where the scanner had used 0.7, and declines the trade.
\<close>

lemma arb_no_signal_sized_with_yes_probability:
  "size_p \<lparr>source = ARBITRAGE, ticker = ''KXTEST'', side = NO, implied_prob = 6 / 10,
           estimated_fair_prob = 7 / 10, edge = 3 / 10, confidence = 1 / 2,
           rationale = CrossPlatformArb (6 / 10) (3 / 10) (1 / 2), timestamp = ''t0''\<rparr> = 3 / 10 \<and>
   should_trade (projr (size_signal cfg_default
          \<lparr>source = ARBITRAGE, ticker = ''KXTEST'', side = NO, implied_prob = 6 / 10,
           estimated_fair_prob = 7 / 10, edge = 3 / 10, confidence = 1 / 2,
           rationale = CrossPlatformArb (6 / 10) (3 / 10) (1 / 2), timestamp = ''t0''\<rparr> 5000))
     = False"
  by (simp add: size_signal_unfolded size_p_def size_market_price_def cfg_default_def Let_def)

section \<open>Rate-limit handling\<close>

text \<open>One turn of the retry loop, its end, and the loop as a whole.\<close>

lemma sdk_request_retry_step:
  assumes "network (requests_made st) = Inr r" and "status_code r = 429" and "0 < retries"
    and "wait_seconds parse_int r = Inr w" and "0 \<le> w"
  shows "sdk_request parse_int network retries st =
         sdk_request parse_int network (retries - 1)
           (st\<lparr>requests_made := Suc (requests_made st), sleeps := sleeps st @ [w]\<rparr>)"
  using assms by (subst sdk_request.simps) (simp add: Let_def)

lemma sdk_request_final:
  assumes "network (requests_made st) = Inr r" and "status_code r \<noteq> 429 \<or> retries \<le> 0"
  shows "sdk_request parse_int network retries st =
         (sdk_finish r, st\<lparr>requests_made := Suc (requests_made st)\<rparr>)"
  using assms by (subst sdk_request.simps) (auto simp: Let_def)

lemma sdk_request_retries:
  "throttled parse_int network (requests_made st) ws \<Longrightarrow> int (length ws) \<le> retries \<Longrightarrow>
   sdk_request parse_int network retries st =
   sdk_request parse_int network (retries - int (length ws))
     (st\<lparr>requests_made := requests_made st + length ws, sleeps := sleeps st @ ws\<rparr>)"
proof (induction ws arbitrary: st retries)
  case Nil
  then show ?case by simp
next
  case (Cons w ws)
  from Cons.prems(1) obtain r where r: "network (requests_made st) = Inr r"
      "status_code r = 429" "wait_seconds parse_int r = Inr w" "0 \<le> w"
      "throttled parse_int network (Suc (requests_made st)) ws"
    by (auto split: sum.splits)
  from Cons.prems(2) have pos: "0 < retries" by simp
  let ?st1 = "st\<lparr>requests_made := Suc (requests_made st), sleeps := sleeps st @ [w]\<rparr>"
  have step: "sdk_request parse_int network retries st =
              sdk_request parse_int network (retries - 1) ?st1"
    using r pos by (rule_tac sdk_request_retry_step) simp_all
  have "throttled parse_int network (requests_made ?st1) ws" using r(5) by simp
  moreover have "int (length ws) \<le> retries - 1" using Cons.prems(2) by simp
  ultimately have "sdk_request parse_int network (retries - 1) ?st1 =
      sdk_request parse_int network (retries - 1 - int (length ws))
        (?st1\<lparr>requests_made := requests_made ?st1 + length ws, sleeps := sleeps ?st1 @ ws\<rparr>)"
    by (rule Cons.IH)
  with step show ?case by (simp add: diff_diff_eq)
qed

lemma wait_seconds_cases:
  "wait_seconds parse_int r =
     (if retry_after r = None \<or> retry_after r = Some [] then Inr 2
      else case parse_int (the (retry_after r)) of None \<Rightarrow> Inl ValueError | Some n \<Rightarrow> Inr n)"
  by (simp add: wait_seconds_def split: option.splits)

text \<open>
  The synchronous client \<open>kalshi_client/client.py\<close> on a rate limit. The wait is 2
  seconds when the header is absent or empty and the integer of the header otherwise.
  When the network answers 429 once for every retry allowed and once more, the request
  raises the rate-limit error after sleeping each wait in turn. When, after at most as
  many 429 replies as retries allowed, a reply has a status below 400, its JSON body is
  the result, the empty dictionary for a 204. The default number of retries is 3.
\<close>

lemma sdk_request_rate_limit:
  "(retry_after r = None \<or> retry_after r = Some [] \<longrightarrow> wait_seconds parse_int r = Inr 2) \<and>
   (retry_after r = Some h \<and> h \<noteq> [] \<and> parse_int h = Some n \<longrightarrow>
      wait_seconds parse_int r = Inr n) \<and>
   (throttled parse_int network (requests_made st) ws \<and> int (length ws) = retries \<and>
    network (requests_made st + length ws) = Inr r \<and> status_code r = 429 \<longrightarrow>
      sdk_request parse_int network retries st =
        (Inl KalshiRateLimitError,
         st\<lparr>requests_made := Suc (requests_made st + length ws),
            sleeps := sleeps st @ ws\<rparr>)) \<and>
   (throttled parse_int network (requests_made st) ws \<and> int (length ws) \<le> retries \<and>
    network (requests_made st + length ws) = Inr r \<and> status_code r < 400 \<and>
    status_code r \<noteq> 204 \<and> json_payload r = Some body \<longrightarrow>
      sdk_request parse_int network retries st =
        (Inr body,
         st\<lparr>requests_made := Suc (requests_made st + length ws),
            sleeps := sleeps st @ ws\<rparr>)) \<and>
   (throttled parse_int network (requests_made st) ws \<and> int (length ws) \<le> retries \<and>
    network (requests_made st + length ws) = Inr r \<and> status_code r = 204 \<longrightarrow>
      sdk_request parse_int network retries st =
        (Inr (JObj []),
         st\<lparr>requests_made := Suc (requests_made st + length ws),
            sleeps := sleeps st @ ws\<rparr>)) \<and>
   sdk_request_default parse_int network st = sdk_request parse_int network 3 st"
proof -
  let ?st' = "st\<lparr>requests_made := requests_made st + length ws, sleeps := sleeps st @ ws\<rparr>"
  have absent: "retry_after r = None \<or> retry_after r = Some [] \<longrightarrow>
      wait_seconds parse_int r = Inr 2"
    by (auto simp: wait_seconds_def)
  have header: "retry_after r = Some h \<and> h \<noteq> [] \<and> parse_int h = Some n \<longrightarrow>
      wait_seconds parse_int r = Inr n"
    by (simp add: wait_seconds_def)
  have loop: "sdk_request parse_int network retries st =
        (sdk_finish r, st\<lparr>requests_made := Suc (requests_made st + length ws),
                          sleeps := sleeps st @ ws\<rparr>)"
    if h: "throttled parse_int network (requests_made st) ws" "int (length ws) \<le> retries"
      "network (requests_made st + length ws) = Inr r"
      "status_code r \<noteq> 429 \<or> retries = int (length ws)"
  proof -
    from h(1,2) have "sdk_request parse_int network retries st =
        sdk_request parse_int network (retries - int (length ws)) ?st'"
      by (intro sdk_request_retries) simp_all
    also from h(3,4) have "\<dots> = (sdk_finish r, ?st'\<lparr>requests_made := Suc (requests_made ?st')\<rparr>)"
      by (intro sdk_request_final) auto
    finally show ?thesis by simp
  qed
  have exhausted: "throttled parse_int network (requests_made st) ws \<and>
      int (length ws) = retries \<and>
      network (requests_made st + length ws) = Inr r \<and> status_code r = 429 \<longrightarrow>
      sdk_request parse_int network retries st =
        (Inl KalshiRateLimitError,
         st\<lparr>requests_made := Suc (requests_made st + length ws), sleeps := sleeps st @ ws\<rparr>)"
    using loop by (auto simp: sdk_finish_def)
  have success: "throttled parse_int network (requests_made st) ws \<and>
      int (length ws) \<le> retries \<and>
      network (requests_made st + length ws) = Inr r \<and> status_code r < 400 \<and>
      status_code r \<noteq> 204 \<and> json_payload r = Some body \<longrightarrow>
      sdk_request parse_int network retries st =
        (Inr body,
         st\<lparr>requests_made := Suc (requests_made st + length ws), sleeps := sleeps st @ ws\<rparr>)"
    using loop by (auto simp: sdk_finish_def)
  have no_content: "throttled parse_int network (requests_made st) ws \<and>
      int (length ws) \<le> retries \<and>
      network (requests_made st + length ws) = Inr r \<and> status_code r = 204 \<longrightarrow>
      sdk_request parse_int network retries st =
        (Inr (JObj []),
         st\<lparr>requests_made := Suc (requests_made st + length ws), sleeps := sleeps st @ ws\<rparr>)"
    using loop by (auto simp: sdk_finish_def)
  from absent header exhausted success no_content show ?thesis
    by (simp add: sdk_request_default_def)
qed

text \<open>
  The scenarios of the client tests: a 429 on every request exhausts the three retries,
  and a 429 with \<open>Retry-After: 1\<close> followed by a 200 returns the body of the 200 after
  one sleep of one second.
\<close>

lemma sdk_request_examples:
  "throttled int_of_one net_always_429 0 [2, 2, 2] \<and>
   sdk_request_default int_of_one net_always_429 net_0 =
     (Inl KalshiRateLimitError, \<lparr>requests_made = 4, sleeps = [2, 2, 2]\<rparr>) \<and>
   throttled int_of_one net_429_then_200 0 [1] \<and>
   sdk_request_default int_of_one net_429_then_200 net_0 =
     (Inr body_200, \<lparr>requests_made = 2, sleeps = [1]\<rparr>) \<and>
   wait_seconds int_of_one resp_429 = Inr 1 \<and>
   wait_seconds int_of_one (resp_429\<lparr>retry_after := None\<rparr>) = Inr 2"
proof -
  have w1: "wait_seconds int_of_one resp_429 = Inr 1"
    using sdk_request_rate_limit [where r = resp_429 and h = "''1''" and n = 1
        and parse_int = int_of_one]
    by (simp add: resp_429_def int_of_one_def)
  have w2: "wait_seconds int_of_one (resp_429\<lparr>retry_after := None\<rparr>) = Inr 2"
    using sdk_request_rate_limit [where r = "resp_429\<lparr>retry_after := None\<rparr>"
        and parse_int = int_of_one]
    by simp
  have t1: "throttled int_of_one net_always_429 0 [2, 2, 2]"
    using w2 by (simp add: net_always_429_def resp_429_def)
  have t2: "throttled int_of_one net_429_then_200 0 [1]"
    using w1 by (simp add: net_429_then_200_def resp_429_def)
  have e: "sdk_request_default int_of_one net_always_429 net_0 =
     (Inl KalshiRateLimitError, \<lparr>requests_made = 4, sleeps = [2, 2, 2]\<rparr>)"
    using t1 sdk_request_rate_limit [where parse_int = int_of_one and network = net_always_429
        and st = net_0 and ws = "[2, 2, 2]" and retries = 3
        and r = "resp_429\<lparr>retry_after := None\<rparr>"]
    by (simp add: net_0_def net_always_429_def resp_429_def)
  have s: "sdk_request_default int_of_one net_429_then_200 net_0 =
     (Inr body_200, \<lparr>requests_made = 2, sleeps = [1]\<rparr>)"
    using t2 sdk_request_rate_limit [where parse_int = int_of_one and network = net_429_then_200
        and st = net_0 and ws = "[1]" and retries = 3 and r = resp_200 and body = body_200]
    by (simp add: net_0_def net_429_then_200_def resp_200_def)
  from w1 w2 t1 t2 e s show ?thesis by simp
qed

text \<open>
  The asynchronous client of the suite on a rate limit: whatever the network would
  answer next, a 429 ends the request with the status error of \<open>raise_for_status\<close>,
  after one request and without a sleep.
\<close>

lemma suite_request_429:
  assumes "network (requests_made st) = Inr r" and "status_code r = 429"
  shows "suite_request None network st =
         (Inl (HTTPStatusError 429), st\<lparr>requests_made := Suc (requests_made st)\<rparr>)"
  using assms by (simp add: suite_request_def Let_def)

text \<open>
  C6, evaluated on the code. The network answers 429 with \<open>Retry-After: 1\<close>, then 200.
  The gateway of the suite raises after the first reply: one request, no sleep, no
  retry, and the body of the 200 is never read. The synchronous client, on the same
  network, sleeps one second, retries and returns that body.
\<close>

theorem suite_request_not_retried:
  "net_429_then_200 0 = Inr resp_429 \<and> status_code resp_429 = 429 \<and>
   retry_after resp_429 = Some ''1'' \<and>
   net_429_then_200 1 = Inr resp_200 \<and> status_code resp_200 = 200 \<and>
   json_payload resp_200 = Some body_200 \<and>
   suite_request None net_429_then_200 net_0 =
     (Inl (HTTPStatusError 429), \<lparr>requests_made = 1, sleeps = []\<rparr>) \<and>
   sdk_request_default int_of_one net_429_then_200 net_0 =
     (Inr body_200, \<lparr>requests_made = 2, sleeps = [1]\<rparr>)"
  using sdk_request_examples
  by (simp add: suite_request_def net_429_then_200_def resp_429_def resp_200_def net_0_def
      Let_def)

section \<open>Validation of the reply of the language model\<close>





text \<open>
  An integer too large for a double leaves the loop with the \<open>OverflowError\<close> of
  \<open>float\<close>, which the handler does not catch: the probability shift \<open>2^1024\<close>.
\<close>

lemma huge_integer_overflows:
  "collect_items no_float
     [JObj [(''ticker_keyword'', JStr ''CPI''), (''side'', JStr ''yes''),
            (''prob_shift'', JInt (2 ^ 1024)), (''confidence'', JFloat (9 / 10))]] =
   Inl OverflowError"
  by (simp add: raw_of_item_def caught_per_item_def)




end
